theory Spec2Isabelle
  imports Main "HOL-Library.Sublist"
begin

section \<open>CareerMate: the chat script of \<open>streamlit_app.py\<close>\<close>

text \<open>
  The program is one Streamlit script, rerun from its first line on every interaction.
  Its collaborators (the settings widgets, \<open>requests\<close>, the OpenAI client, the clock)
  are the fields of an environment record; what survives a rerun (the session's
  \<open>messages\<close> and the cache of \<open>st.cache_data\<close>) is a state record passed through;
  everything a run does to the outside (HTTP requests, warnings, rendered chat messages,
  calls of the language model) is returned as a trace of effects, in order.
\<close>

subsection \<open>Python values\<close>

text \<open>
  A character is a code point below 256, so a \<open>string\<close> is a Python \<open>str\<close> over that
  range. \<open>py_isspace\<close> and \<open>py_lower\<close> are \<open>str.isspace\<close> and \<open>str.lower\<close> there.
\<close>

definition py_isspace :: "char \<Rightarrow> bool" where
  "py_isspace c =
     (let n = (of_char c :: nat)
      in (9 \<le> n \<and> n \<le> 13) \<or> (28 \<le> n \<and> n \<le> 32) \<or> n = 133 \<or> n = 160)"

definition py_lower :: "char \<Rightarrow> char" where
  "py_lower c =
     (let n = (of_char c :: nat)
      in if (65 \<le> n \<and> n \<le> 90) \<or> (192 \<le> n \<and> n \<le> 222 \<and> n \<noteq> 215)
         then char_of (n + 32) else c)"

definition strip :: "string \<Rightarrow> string" where
  "strip s = rev (dropWhile py_isspace (rev (dropWhile py_isspace s)))"

definition lower :: "string \<Rightarrow> string" where
  "lower s = map py_lower s"

definition startswith :: "string \<Rightarrow> string \<Rightarrow> bool" where
  "startswith s p = (take (length p) s = p)"

fun join :: "string \<Rightarrow> string list \<Rightarrow> string" where
  "join sep [] = []"
| "join sep [x] = x"
| "join sep (x # y # ys) = x @ sep @ join sep (y # ys)"

text \<open>
  What \<open>res.json()\<close> returns: a dict is an association list whose first binding of a
  key is the dict's value; a number is kept as its literal, the script never computes
  with one.
\<close>

datatype json =
    JNull
  | JBool bool
  | JNum string
  | JStr string
  | JArr "json list"
  | JObj "(string \<times> json) list"

text \<open>
  The exceptions the script can meet, all subclasses of \<open>Exception\<close>, so an
  \<open>except Exception\<close> clause catches each of them.
\<close>

datatype exn =
    RequestException
  | HTTPError
  | JSONDecodeError
  | KeyError string
  | TypeError
  | AttributeError
  | APIError
  | OtherError string

definition bind_exn :: "exn + 'a \<Rightarrow> ('a \<Rightarrow> exn + 'b) \<Rightarrow> exn + 'b" where
  "bind_exn m f = (case m of Inl ex \<Rightarrow> Inl ex | Inr x \<Rightarrow> f x)"

text \<open>A comprehension or loop over \<open>xs\<close> whose body may raise: the first exception ends it.\<close>

fun map_exn :: "('a \<Rightarrow> exn + 'b) \<Rightarrow> 'a list \<Rightarrow> exn + 'b list" where
  "map_exn f [] = Inr []"
| "map_exn f (x # xs) =
     bind_exn (f x) (\<lambda>y. bind_exn (map_exn f xs) (\<lambda>ys. Inr (y # ys)))"

text \<open>\<open>v[k]\<close> for a string key \<open>k\<close>: only a dict can be indexed so.\<close>

fun py_getitem :: "json \<Rightarrow> string \<Rightarrow> exn + json" where
  "py_getitem (JObj kvs) k =
     (case map_of kvs k of None \<Rightarrow> Inl (KeyError k) | Some v \<Rightarrow> Inr v)"
| "py_getitem v k = Inl TypeError"

text \<open>\<open>v.get(k, d)\<close>: only a dict has the method.\<close>

fun py_get :: "json \<Rightarrow> string \<Rightarrow> json \<Rightarrow> exn + json" where
  "py_get (JObj kvs) k d = Inr (case map_of kvs k of None \<Rightarrow> d | Some v \<Rightarrow> v)"
| "py_get v k d = Inl AttributeError"

text \<open>\<open>v[:n]\<close>: a list or a string is cut, nothing else can be sliced.\<close>

fun py_slice :: "json \<Rightarrow> nat \<Rightarrow> exn + json" where
  "py_slice (JArr xs) n = Inr (JArr (take n xs))"
| "py_slice (JStr s) n = Inr (JStr (take n s))"
| "py_slice v n = Inl TypeError"

text \<open>
  \<open>for x in v\<close>: a list gives its elements, a dict its keys, a string its characters;
  the other values are not iterable.
\<close>

fun py_iter :: "json \<Rightarrow> exn + json list" where
  "py_iter (JArr xs) = Inr xs"
| "py_iter (JObj kvs) = Inr (map JStr (remdups (map fst kvs)))"
| "py_iter (JStr s) = Inr (map (\<lambda>c. JStr [c]) s)"
| "py_iter v = Inl TypeError"

subsection \<open>The data model\<close>

datatype role = System | User | Assistant

record message =
  role :: role
  content :: string

record news_item =
  title :: json
  url :: json
  source :: json

record event_item =
  name :: json
  url :: json
  start :: json
  venue :: json

text \<open>A GET request: the URL and the query parameters.\<close>

type_synonym request = "string \<times> (string \<times> string) list"

text \<open>
  What \<open>requests.get\<close> does: it raises (no connection, a timeout), or it returns a
  response, given here by its status code and by what \<open>res.json()\<close> does on its body
  (it raises when the body is not JSON).
\<close>

datatype http_outcome =
    GetRaises exn
  | Response nat "exn + json"

text \<open>
  \<open>res.raise_for_status()\<close> of the \<open>requests\<close> library: \<open>HTTPError\<close> for a status from
  400 to 599, nothing for any other status.
\<close>

definition raise_for_status :: "nat \<Rightarrow> exn option" where
  "raise_for_status status =
     (if 400 \<le> status \<and> status < 600 then Some HTTPError else None)"

text \<open>
  What the streamed completion does: \<open>create\<close> raises, or the stream yields its text
  fragments and then ends, normally or with an exception.
\<close>

datatype llm_outcome =
    CreateRaises exn
  | Streams "string list" "exn option"

datatype fetch_kind = NewsFetch | EventsFetch

datatype effect =
    HttpGet request
  | Warning fetch_kind exn
  | ErrorBox
  | ChatMessage role string
  | LlmCall "(role \<times> string) list"

record env =
  openai_api_key :: string
  news_api_key :: string
  event_api_key :: string
  profession :: string
  location :: string
  today :: string
  utcnow_iso :: string
  utcnow_30d_iso :: string
  requests_get :: "request \<Rightarrow> http_outcome"
  chat_completions_create :: "(role \<times> string) list \<Rightarrow> llm_outcome"
  py_repr :: "json \<Rightarrow> string"

text \<open>
  \<open>today\<close> is \<open>datetime.now().strftime("%Y-%m-%d")\<close>; \<open>utcnow_iso\<close> and
  \<open>utcnow_30d_iso\<close> are the two \<open>isoformat()\<close> strings of \<open>_query_events\<close>;
  \<open>py_repr\<close> is the interpreter's rendering of a value that is not a string.
\<close>

text \<open>
  An entry of the cache of \<open>st.cache_data\<close>: the value returned, and the warnings the
  function showed while it computed it.
\<close>

type_synonym cache =
  "string \<times> string \<rightharpoonup> news_item list \<times> event_item list \<times> (fetch_kind \<times> exn) list"

record state =
  messages :: "message list option"
  cache :: cache

datatype outcome = Completed | Stopped | Raised exn

subsection \<open>Fetching news and events\<close>

definition news_request :: "env \<Rightarrow> string \<Rightarrow> request" where
  "news_request e prof =
     (''https://newsapi.org/v2/everything'',
      [(''q'', if prof \<noteq> [] then prof else ''career''),
       (''language'', ''ko,en''),
       (''sortBy'', ''publishedAt''),
       (''pageSize'', ''3''),
       (''apiKey'', news_api_key e)])"

definition news_of :: "json \<Rightarrow> exn + news_item" where
  "news_of art =
     bind_exn (py_getitem art ''title'') (\<lambda>t.
     bind_exn (py_getitem art ''url'') (\<lambda>u.
     bind_exn (py_getitem art ''source'') (\<lambda>s.
     bind_exn (py_getitem s ''name'') (\<lambda>n.
     Inr \<lparr>title = t, url = u, source = n\<rparr>))))"

definition news_items :: "json \<Rightarrow> exn + news_item list" where
  "news_items data =
     bind_exn (py_get data ''articles'' (JArr [])) (\<lambda>arts.
     bind_exn (py_iter arts) (map_exn news_of))"

text \<open>The body of the \<open>try\<close> block of \<open>_query_news\<close>.\<close>

definition news_try :: "env \<Rightarrow> request \<Rightarrow> exn + news_item list" where
  "news_try e req =
     (case requests_get e req of
        GetRaises ex \<Rightarrow> Inl ex
      | Response status body \<Rightarrow>
          (case raise_for_status status of
             Some ex \<Rightarrow> Inl ex
           | None \<Rightarrow> bind_exn body news_items))"

text \<open>\<open>_query_news\<close> (an Isabelle name cannot start with an underscore).\<close>

definition query_news :: "env \<Rightarrow> string \<Rightarrow> news_item list \<times> effect list" where
  "query_news e prof =
     (if news_api_key e = [] then ([], [])
      else
        let req = news_request e prof
        in case news_try e req of
             Inr items \<Rightarrow> (items, [HttpGet req])
           | Inl ex \<Rightarrow> ([], [HttpGet req, Warning NewsFetch ex]))"

definition events_request :: "env \<Rightarrow> string \<Rightarrow> string \<Rightarrow> request" where
  "events_request e loc prof =
     (''https://www.eventbriteapi.com/v3/events/search/'',
      [(''q'', if prof \<noteq> [] then prof else ''networking''),
       (''location.address'', loc),
       (''start_date.range_start'', utcnow_iso e @ ''Z''),
       (''start_date.range_end'', utcnow_30d_iso e @ ''Z''),
       (''token'', event_api_key e),
       (''expand'', ''venue'')])"

definition event_of :: "json \<Rightarrow> exn + event_item" where
  "event_of ev =
     bind_exn (py_getitem ev ''name'') (\<lambda>nm.
     bind_exn (py_getitem nm ''text'') (\<lambda>t.
     bind_exn (py_getitem ev ''url'') (\<lambda>u.
     bind_exn (py_getitem ev ''start'') (\<lambda>st.
     bind_exn (py_getitem st ''local'') (\<lambda>l.
     bind_exn (py_slice l 10) (\<lambda>d.
     bind_exn (py_get ev ''venue'' (JObj [])) (\<lambda>v.
     bind_exn (py_get v ''name'' (JStr [])) (\<lambda>vn.
     Inr \<lparr>name = t, url = u, start = d, venue = vn\<rparr>))))))))"

definition event_items :: "json \<Rightarrow> exn + event_item list" where
  "event_items data =
     bind_exn (py_get data ''events'' (JArr [])) (\<lambda>evs.
     bind_exn (py_slice evs 3) (\<lambda>first3.
     bind_exn (py_iter first3) (map_exn event_of)))"

text \<open>The body of the \<open>try\<close> block of \<open>_query_events\<close>.\<close>

definition events_try :: "env \<Rightarrow> request \<Rightarrow> exn + event_item list" where
  "events_try e req =
     (case requests_get e req of
        GetRaises ex \<Rightarrow> Inl ex
      | Response status body \<Rightarrow>
          (case raise_for_status status of
             Some ex \<Rightarrow> Inl ex
           | None \<Rightarrow> bind_exn body event_items))"

text \<open>\<open>_query_events\<close>.\<close>

definition query_events :: "env \<Rightarrow> string \<Rightarrow> string \<Rightarrow> event_item list \<times> effect list" where
  "query_events e loc prof =
     (if event_api_key e = [] \<or> loc = [] then ([], [])
      else
        let req = events_request e loc prof
        in case events_try e req of
             Inr events \<Rightarrow> (events, [HttpGet req])
           | Inl ex \<Rightarrow> ([], [HttpGet req, Warning EventsFetch ex]))"

fun warnings_of :: "effect list \<Rightarrow> (fetch_kind \<times> exn) list" where
  "warnings_of [] = []"
| "warnings_of (Warning k ex # tr) = (k, ex) # warnings_of tr"
| "warnings_of (x # tr) = warnings_of tr"

fun http_gets :: "effect list \<Rightarrow> request list" where
  "http_gets [] = []"
| "http_gets (HttpGet req # tr) = req # http_gets tr"
| "http_gets (x # tr) = http_gets tr"

text \<open>
  \<open>fetch_news_and_events\<close> under \<open>@st.cache_data\<close>: the arguments are the key; a hit
  returns the stored value without running the body and shows again the warnings the
  body had shown; a miss runs the body and stores its value with those warnings.
\<close>

definition fetch_news_and_events ::
  "env \<Rightarrow> string \<Rightarrow> string \<Rightarrow> cache
     \<Rightarrow> (news_item list \<times> event_item list) \<times> cache \<times> effect list" where
  "fetch_news_and_events e prof loc c =
     (case c (prof, loc) of
        Some (news, events, shown) \<Rightarrow>
          ((news, events), c, map (\<lambda>(k, ex). Warning k ex) shown)
      | None \<Rightarrow>
          let (news, t1) = query_news e prof;
              (events, t2) = query_events e loc prof;
              tr = t1 @ t2
          in ((news, events), c((prof, loc) \<mapsto> (news, events, warnings_of tr)), tr))"

subsection \<open>Prompts\<close>

definition build_system_prompt :: "env \<Rightarrow> string" where
  "build_system_prompt e =
     (let base = ''You are CareerMate, a multilingual professional assistant. ''
                 @ ''Today's date is '' @ today e @ ''.'';
          base = (if profession e \<noteq> []
                  then base @ '' The user's profession is '' @ [CHR 0x27] @ profession e
                       @ [CHR 0x27] @ ''.''
                  else base);
          base = (if location e \<noteq> []
                  then base @ '' The user is located in '' @ location e @ ''.''
                  else base)
      in base
         @ '' Curate relevant news and events, and provide clear, concise, and actionable feedback. ''
         @ ''When asked for a daily briefing, provide a bullet summary in Korean, then offer deeper dives.'')"

text \<open>A value inside an f-string: a string is itself, anything else is rendered.\<close>

definition fmt :: "env \<Rightarrow> json \<Rightarrow> string" where
  "fmt e v = (case v of JStr s \<Rightarrow> s | _ \<Rightarrow> py_repr e v)"

definition news_line :: "env \<Rightarrow> news_item \<Rightarrow> string" where
  "news_line e n = ''- '' @ fmt e (title n) @ '' ('' @ fmt e (source n) @ '')''"

definition event_line :: "env \<Rightarrow> event_item \<Rightarrow> string" where
  "event_line e ev =
     ''- '' @ fmt e (start ev) @ '' '' @ fmt e (name ev) @ '' @ '' @ fmt e (venue ev)"

definition briefing_context :: "env \<Rightarrow> news_item list \<Rightarrow> event_item list \<Rightarrow> string" where
  "briefing_context e news events =
     (let ctx = ''You gathered the following data:\<newline>\<newline>'';
          ctx = (if news \<noteq> []
                 then ctx @ ''Recent news headlines:\<newline>''
                      @ join ''\<newline>'' (map (news_line e) news) @ ''\<newline>\<newline>''
                 else ctx);
          ctx = (if events \<noteq> []
                 then ctx @ ''Upcoming events:\<newline>''
                      @ join ''\<newline>'' (map (event_line e) events) @ ''\<newline>\<newline>''
                 else ctx);
          ctx = (if news = [] \<and> events = []
                 then ctx @ ''(No external data available)\<newline>\<newline>''
                 else ctx)
      in ctx
         @ ''Please craft a Korean daily briefing in bullet points (max 120 words), then suggest next actions.'')"

text \<open>
  The template as the specification words it (\<open>buildBriefingAugmentation\<close>): a preamble,
  the news section when there is news, the events section when there are events, the
  marker when there is neither, and the closing instruction. It is compared with
  \<open>briefing_context\<close> below.
\<close>

definition preamble :: string where
  "preamble = ''You gathered the following data:\<newline>\<newline>''"

definition news_section :: "env \<Rightarrow> news_item list \<Rightarrow> string" where
  "news_section e news =
     ''Recent news headlines:\<newline>'' @ join ''\<newline>'' (map (news_line e) news)
     @ ''\<newline>\<newline>''"

definition events_section :: "env \<Rightarrow> event_item list \<Rightarrow> string" where
  "events_section e events =
     ''Upcoming events:\<newline>'' @ join ''\<newline>'' (map (event_line e) events)
     @ ''\<newline>\<newline>''"

definition no_data_marker :: string where
  "no_data_marker = ''(No external data available)\<newline>\<newline>''"

definition closing_instruction :: string where
  "closing_instruction =
     ''Please craft a Korean daily briefing in bullet points (max 120 words), then suggest next actions.''"

definition buildBriefingAugmentation ::
  "env \<Rightarrow> news_item list \<Rightarrow> event_item list \<Rightarrow> string" where
  "buildBriefingAugmentation e news events =
     preamble
     @ (if news = [] then [] else news_section e news)
     @ (if events = [] then [] else events_section e events)
     @ (if news = [] \<and> events = [] then no_data_marker else [])
     @ closing_instruction"

subsection \<open>The script\<close>

text \<open>The loop that shows the stored messages: a system message is skipped.\<close>

fun display_messages :: "message list \<Rightarrow> effect list" where
  "display_messages [] = []"
| "display_messages (m # ms) =
     (if role m = System then display_messages ms
      else ChatMessage (role m) (content m) # display_messages ms)"

text \<open>The list handed to \<open>client.chat.completions.create\<close>.\<close>

definition payload :: "message list \<Rightarrow> (role \<times> string) list" where
  "payload msgs = map (\<lambda>m. (role m, content m)) msgs"

text \<open>The test of line 167.\<close>

definition brief_command :: "string \<Rightarrow> bool" where
  "brief_command user_input = startswith (lower (strip user_input)) ''/brief''"

text \<open>
  The body of \<open>if user_input:\<close>, on the session's messages and the cache. An exception
  of the model call leaves the script: the messages appended so far stay in the session.
\<close>

definition handle_input ::
  "env \<Rightarrow> string \<Rightarrow> message list \<Rightarrow> cache \<Rightarrow> outcome \<times> message list \<times> cache \<times> effect list" where
  "handle_input e user_input msgs c =
     (let msgs1 = msgs @ [\<lparr>role = User, content = user_input\<rparr>];
          t1 = [ChatMessage User user_input];
          (msgs2, c2, t2) =
            (if brief_command user_input
             then
               let ((news, events), c', tf) =
                     fetch_news_and_events e (profession e) (location e) c
               in (msgs1 @ [\<lparr>role = System, content = briefing_context e news events\<rparr>],
                   c', t1 @ tf)
             else (msgs1, c, t1));
          t3 = t2 @ [LlmCall (payload msgs2)]
      in case chat_completions_create e (payload msgs2) of
           CreateRaises ex \<Rightarrow> (Raised ex, msgs2, c2, t3)
         | Streams chunks (Some ex) \<Rightarrow>
             (Raised ex, msgs2, c2, t3 @ [ChatMessage Assistant (concat chunks)])
         | Streams chunks None \<Rightarrow>
             (Completed,
              msgs2 @ [\<lparr>role = Assistant, content = concat chunks\<rparr>],
              c2,
              t3 @ [ChatMessage Assistant (concat chunks)]))"

text \<open>
  The session's messages once the block \<open>if "messages" not in st.session_state\<close> has
  run: a session without them gets the base system turn.
\<close>

definition session_messages :: "env \<Rightarrow> state \<Rightarrow> message list" where
  "session_messages e s =
     (case messages s of
        None \<Rightarrow> [\<lparr>role = System, content = build_system_prompt e\<rparr>]
      | Some ms \<Rightarrow> ms)"

text \<open>
  One run of the script; \<open>user_input\<close> is what \<open>st.chat_input\<close> returns, \<open>None\<close>
  when nothing was submitted.
\<close>

definition script_run :: "env \<Rightarrow> string option \<Rightarrow> state \<Rightarrow> outcome \<times> state \<times> effect list" where
  "script_run e user_input s =
     (if openai_api_key e = [] then (Stopped, s, [ErrorBox])
      else
        let msgs = session_messages e s;
            shown = display_messages msgs
        in case user_input of
             None \<Rightarrow> (Completed, s\<lparr>messages := Some msgs\<rparr>, shown)
           | Some text \<Rightarrow>
               if text = [] then (Completed, s\<lparr>messages := Some msgs\<rparr>, shown)
               else
                 let (r, msgs', c', tr) = handle_input e text msgs (cache s)
                 in (r, \<lparr>messages = Some msgs', cache = c'\<rparr>, shown @ tr))"

definition initial_state :: state where
  "initial_state = \<lparr>messages = None, cache = Map.empty\<rparr>"

text \<open>A session: the script run once per interaction, each with its own environment.\<close>

fun session_run :: "(env \<times> string option) list \<Rightarrow> state \<Rightarrow> state \<times> effect list" where
  "session_run [] s = (s, [])"
| "session_run ((e, inp) # steps) s =
     (let (r, s1, t1) = script_run e inp s;
          (s2, t2) = session_run steps s1
      in (s2, t1 @ t2))"

text \<open>The payloads of the model calls of a trace, in order.\<close>

fun llm_calls :: "effect list \<Rightarrow> (role \<times> string) list list" where
  "llm_calls [] = []"
| "llm_calls (LlmCall p # tr) = p # llm_calls tr"
| "llm_calls (x # tr) = llm_calls tr"

text \<open>The chat messages a trace put on the page, in order.\<close>

fun is_chat :: "effect \<Rightarrow> bool" where
  "is_chat (ChatMessage r t) = True"
| "is_chat x = False"

definition chat_messages :: "effect list \<Rightarrow> effect list" where
  "chat_messages tr = filter is_chat tr"

subsection \<open>Sample environments\<close>

text \<open>
  Concrete collaborators for the examples below: a news provider that answers with one
  article and an events provider that answers with none, and providers that are down.
\<close>

definition news_payload :: json where
  "news_payload =
     JObj [(''articles'',
            JArr [JObj [(''title'', JStr ''A''), (''url'', JStr ''https://example.org/a''),
                        (''source'', JObj [(''name'', JStr ''S'')])]])]"

definition provider_one_news :: "request \<Rightarrow> http_outcome" where
  "provider_one_news req =
     (if fst req = ''https://newsapi.org/v2/everything'' then Response 200 (Inr news_payload)
      else Response 200 (Inr (JObj [(''events'', JArr [])])))"

definition provider_down :: "request \<Rightarrow> http_outcome" where
  "provider_down req = GetRaises RequestException"

text \<open>
  A provider that answers every request with status 500; one that answers with status
  300 and the article in the body; one that answers with status 200 and an empty object.
\<close>

definition provider_500 :: "request \<Rightarrow> http_outcome" where
  "provider_500 req = Response 500 (Inl JSONDecodeError)"

definition provider_300 :: "request \<Rightarrow> http_outcome" where
  "provider_300 req = Response 300 (Inr news_payload)"

definition provider_empty_object :: "request \<Rightarrow> http_outcome" where
  "provider_empty_object req = Response 200 (Inr (JObj []))"

definition sample_env ::
  "string \<Rightarrow> string \<Rightarrow> (request \<Rightarrow> http_outcome) \<Rightarrow> llm_outcome \<Rightarrow> env" where
  "sample_env nk ek get answer =
     \<lparr>openai_api_key = ''sk-test'', news_api_key = nk, event_api_key = ek,
      profession = ''UI/UX Designer'', location = ''Seoul'', today = ''2025-06-01'',
      utcnow_iso = ''2025-06-01T00:00:00'', utcnow_30d_iso = ''2025-07-01T00:00:00'',
      requests_get = get, chat_completions_create = (\<lambda>p. answer),
      py_repr = (\<lambda>v. ''?'')\<rparr>"

text \<open>An article without a title, and an event without a venue.\<close>

definition untitled_payload :: json where
  "untitled_payload =
     JObj [(''articles'',
            JArr [JObj [(''url'', JStr ''https://example.org/a''),
                        (''source'', JObj [(''name'', JStr ''S'')])]])]"

definition event_no_venue :: "(string \<times> json) list" where
  "event_no_venue =
     [(''name'', JObj [(''text'', JStr ''Meetup'')]),
      (''url'', JStr ''https://example.org/e''),
      (''start'', JObj [(''local'', JStr ''2025-06-10T19:00:00'')])]"

text \<open>A provider whose only event is the one without a venue.\<close>

definition provider_event_no_venue :: "request \<Rightarrow> http_outcome" where
  "provider_event_no_venue req = Response 200 (Inr (JObj [(''events'', JArr [JObj event_no_venue])]))"

section \<open>Properties\<close>

subsection \<open>The fetchers\<close>

text \<open>
  C5. Without its credential \<open>_query_news\<close> returns the empty list at once: its trace is
  empty, so no request was sent, no warning shown and nothing raised.
  \<open>_query_events\<close> does the same when its credential is absent or the location is empty.
\<close>

theorem missing_credential_no_fetch:
  "(news_api_key e = [] \<longrightarrow> query_news e prof = ([], []))
   \<and> (event_api_key e = [] \<or> loc = [] \<longrightarrow> query_events e loc prof = ([], []))"
  by (simp add: query_news_def query_events_def)

theorem missing_credential_no_fetch_witness:
  "news_api_key (sample_env [] [] provider_one_news (Streams [] None)) = []
   \<and> query_news (sample_env [] [] provider_one_news (Streams [] None)) ''designer'' = ([], [])
   \<and> query_events (sample_env [] [] provider_one_news (Streams [] None)) ''Seoul'' ''designer''
       = ([], [])"
  using missing_credential_no_fetch
    [of "sample_env [] [] provider_one_news (Streams [] None)" "''designer''" "''Seoul''"]
  by (simp add: sample_env_def)

subsection \<open>The cache\<close>






subsection \<open>Failures of a fetch\<close>

lemma map_exn_fails:
  "x \<in> set xs \<Longrightarrow> f x = Inl ex \<Longrightarrow> \<exists>ex'. map_exn f xs = Inl ex'"
  by (induction xs) (auto simp add: bind_exn_def split: sum.splits)

lemma py_get_not_object: "(\<forall>kvs. data \<noteq> JObj kvs) \<Longrightarrow> py_get data k d = Inl AttributeError"
  by (cases data) auto

lemma query_news_raised:
  "news_api_key e \<noteq> [] \<Longrightarrow> news_try e (news_request e prof) = Inl ex \<Longrightarrow>
     query_news e prof = ([], [HttpGet (news_request e prof), Warning NewsFetch ex])"
  by (simp add: query_news_def)

lemma query_news_returned:
  "news_api_key e \<noteq> [] \<Longrightarrow> news_try e (news_request e prof) = Inr items \<Longrightarrow>
     query_news e prof = (items, [HttpGet (news_request e prof)])"
  by (simp add: query_news_def)

lemma query_events_raised:
  "event_api_key e \<noteq> [] \<Longrightarrow> loc \<noteq> [] \<Longrightarrow> events_try e (events_request e loc prof) = Inl ex \<Longrightarrow>
     query_events e loc prof = ([], [HttpGet (events_request e loc prof), Warning EventsFetch ex])"
  by (simp add: query_events_def)

lemma query_events_returned:
  "event_api_key e \<noteq> [] \<Longrightarrow> loc \<noteq> [] \<Longrightarrow> events_try e (events_request e loc prof) = Inr items \<Longrightarrow>
     query_events e loc prof = (items, [HttpGet (events_request e loc prof)])"
  by (simp add: query_events_def)

lemma news_items_lost:
  "map_of kvs ''articles'' = Some (JArr arts) \<Longrightarrow> a \<in> set arts \<Longrightarrow> news_of a = Inl ex0 \<Longrightarrow>
     \<exists>ex. news_items (JObj kvs) = Inl ex"
  using map_exn_fails [of a arts news_of ex0] by (auto simp add: news_items_def bind_exn_def)

lemma event_items_lost:
  "map_of kvs ''events'' = Some (JArr evs) \<Longrightarrow> a \<in> set (take 3 evs) \<Longrightarrow> event_of a = Inl ex0 \<Longrightarrow>
     \<exists>ex. event_items (JObj kvs) = Inl ex"
  using map_exn_fails [of a "take 3 evs" event_of ex0]
  by (auto simp add: event_items_def bind_exn_def)

lemma news_fetch_lost:
  assumes key: "news_api_key e \<noteq> []"
    and resp: "requests_get e (news_request e prof) = Response st (Inr (JObj kvs))"
    and ok: "\<not> (400 \<le> st \<and> st < 600)"
    and arts: "map_of kvs ''articles'' = Some (JArr arts)"
    and bad: "a \<in> set arts" "news_of a = Inl ex0"
  shows "\<exists>ex. query_news e prof = ([], [HttpGet (news_request e prof), Warning NewsFetch ex])"
proof -
  from news_items_lost [OF arts bad] obtain ex where "news_items (JObj kvs) = Inl ex"
    by blast
  with resp ok have "news_try e (news_request e prof) = Inl ex"
    by (auto simp add: news_try_def raise_for_status_def bind_exn_def)
  from query_news_raised [OF key this] show ?thesis
    by blast
qed

lemma events_fetch_lost:
  assumes key: "event_api_key e \<noteq> []" "loc \<noteq> []"
    and resp: "requests_get e (events_request e loc prof) = Response st (Inr (JObj kvs))"
    and ok: "\<not> (400 \<le> st \<and> st < 600)"
    and evs: "map_of kvs ''events'' = Some (JArr evs)"
    and bad: "a \<in> set (take 3 evs)" "event_of a = Inl ex0"
  shows "\<exists>ex. query_events e loc prof
               = ([], [HttpGet (events_request e loc prof), Warning EventsFetch ex])"
proof -
  from event_items_lost [OF evs bad] obtain ex where "event_items (JObj kvs) = Inl ex"
    by blast
  with resp ok have "events_try e (events_request e loc prof) = Inl ex"
    by (auto simp add: events_try_def raise_for_status_def bind_exn_def)
  from query_events_raised [OF key this] show ?thesis
    by blast
qed

text \<open>
  C2, as the claim states it, fails on two of the failures it names. A status that is
  not 2xx is not always a failure for the fetcher: \<open>raise_for_status\<close> raises from 400
  to 599 only, so a response with status 300 and an article in its body gives that
  article and no warning. A payload that is not as expected is not always one either:
  \<open>data.get("articles", [])\<close> reads a body without the key as no articles, so an empty
  object gives the empty list and no warning.
\<close>

theorem non_failure_counterexample:
  "query_news (sample_env ''k1'' ''k2'' provider_300 (Streams [] None)) ''designer''
     = ([\<lparr>title = JStr ''A'', url = JStr ''https://example.org/a'', source = JStr ''S''\<rparr>],
        [HttpGet (news_request (sample_env ''k1'' ''k2'' provider_300 (Streams [] None))
                    ''designer'')])
   \<and> query_news (sample_env ''k1'' ''k2'' provider_empty_object (Streams [] None)) ''designer''
     = ([], [HttpGet (news_request (sample_env ''k1'' ''k2'' provider_empty_object (Streams [] None))
                        ''designer'')])"
  by (simp add: query_news_def news_try_def raise_for_status_def news_items_def news_of_def
      bind_exn_def sample_env_def provider_300_def provider_empty_object_def news_payload_def)

text \<open>
  C2, amended. Whenever a call of the \<open>try\<close> block raises, the fetcher returns the empty
  list and its trace is the request followed by exactly one warning; the fetchers return
  a value on every path, so nothing is raised to the caller. The calls that raise are:
  \<open>requests.get\<close> (no connection, a timeout); \<open>raise_for_status\<close> on a status from 400 to
  599; \<open>res.json()\<close> on a body that is not JSON; and the extraction, when the body is
  not an object, when the value under \<open>articles\<close> (or \<open>events\<close>) is null, a boolean or
  a number (or, for events, an object), or when an article (or one of the first three
  events) cannot be extracted. Any other status is no failure: the body is read, and a
  body whose extraction succeeds gives its items with no warning. An object without the
  key is no failure either: the empty list, with no warning. In every case at all, a
  fetcher returns one of three things: the empty list and an empty trace, some list and
  the request alone, or the empty list and the request followed by one warning.
\<close>

theorem raising_fetch_degrades:
  "(news_api_key e \<noteq> []
        \<and> requests_get e (news_request e prof) = GetRaises ex
      \<longrightarrow> query_news e prof
            = ([], [HttpGet (news_request e prof), Warning NewsFetch ex]))
   \<and> (news_api_key e \<noteq> []
        \<and> requests_get e (news_request e prof) = Response st body
        \<and> 400 \<le> st \<and> st < 600
      \<longrightarrow> query_news e prof
            = ([], [HttpGet (news_request e prof), Warning NewsFetch HTTPError]))
   \<and> (news_api_key e \<noteq> []
        \<and> requests_get e (news_request e prof) = Response st (Inl ex)
        \<and> \<not> (400 \<le> st \<and> st < 600)
      \<longrightarrow> query_news e prof
            = ([], [HttpGet (news_request e prof), Warning NewsFetch ex]))
   \<and> (news_api_key e \<noteq> []
        \<and> requests_get e (news_request e prof) = Response st (Inr data)
        \<and> \<not> (400 \<le> st \<and> st < 600)
        \<and> (\<forall>kvs. data \<noteq> JObj kvs)
      \<longrightarrow> query_news e prof
            = ([], [HttpGet (news_request e prof), Warning NewsFetch AttributeError]))
   \<and> (news_api_key e \<noteq> []
        \<and> requests_get e (news_request e prof) = Response st (Inr (JObj kvs))
        \<and> \<not> (400 \<le> st \<and> st < 600)
        \<and> map_of kvs ''articles'' = Some v
        \<and> (v = JNull \<or> (\<exists>b. v = JBool b) \<or> (\<exists>n. v = JNum n))
      \<longrightarrow> query_news e prof
            = ([], [HttpGet (news_request e prof), Warning NewsFetch TypeError]))
   \<and> (news_api_key e \<noteq> []
        \<and> requests_get e (news_request e prof) = Response st (Inr (JObj kvs))
        \<and> \<not> (400 \<le> st \<and> st < 600)
        \<and> map_of kvs ''articles'' = Some (JArr arts)
        \<and> a \<in> set arts \<and> news_of a = Inl ex0
      \<longrightarrow> (\<exists>ex'. query_news e prof
            = ([], [HttpGet (news_request e prof), Warning NewsFetch ex'])))
   \<and> (news_api_key e \<noteq> []
        \<and> requests_get e (news_request e prof) = Response st (Inr (JObj kvs))
        \<and> \<not> (400 \<le> st \<and> st < 600)
        \<and> map_of kvs ''articles'' = None
      \<longrightarrow> query_news e prof = ([], [HttpGet (news_request e prof)]))
   \<and> (news_api_key e \<noteq> []
        \<and> requests_get e (news_request e prof) = Response st (Inr data)
        \<and> \<not> (400 \<le> st \<and> st < 600)
        \<and> news_items data = Inr items
      \<longrightarrow> query_news e prof = (items, [HttpGet (news_request e prof)]))
   \<and> (event_api_key e \<noteq> [] \<and> loc \<noteq> []
        \<and> requests_get e (events_request e loc prof) = GetRaises ex
      \<longrightarrow> query_events e loc prof
            = ([], [HttpGet (events_request e loc prof), Warning EventsFetch ex]))
   \<and> (event_api_key e \<noteq> [] \<and> loc \<noteq> []
        \<and> requests_get e (events_request e loc prof) = Response st body
        \<and> 400 \<le> st \<and> st < 600
      \<longrightarrow> query_events e loc prof
            = ([], [HttpGet (events_request e loc prof), Warning EventsFetch HTTPError]))
   \<and> (event_api_key e \<noteq> [] \<and> loc \<noteq> []
        \<and> requests_get e (events_request e loc prof) = Response st (Inl ex)
        \<and> \<not> (400 \<le> st \<and> st < 600)
      \<longrightarrow> query_events e loc prof
            = ([], [HttpGet (events_request e loc prof), Warning EventsFetch ex]))
   \<and> (event_api_key e \<noteq> [] \<and> loc \<noteq> []
        \<and> requests_get e (events_request e loc prof) = Response st (Inr data)
        \<and> \<not> (400 \<le> st \<and> st < 600)
        \<and> (\<forall>kvs. data \<noteq> JObj kvs)
      \<longrightarrow> query_events e loc prof
            = ([], [HttpGet (events_request e loc prof), Warning EventsFetch AttributeError]))
   \<and> (event_api_key e \<noteq> [] \<and> loc \<noteq> []
        \<and> requests_get e (events_request e loc prof) = Response st (Inr (JObj kvs))
        \<and> \<not> (400 \<le> st \<and> st < 600)
        \<and> map_of kvs ''events'' = Some v
        \<and> (v = JNull \<or> (\<exists>b. v = JBool b) \<or> (\<exists>n. v = JNum n) \<or> (\<exists>kvs'. v = JObj kvs'))
      \<longrightarrow> query_events e loc prof
            = ([], [HttpGet (events_request e loc prof), Warning EventsFetch TypeError]))
   \<and> (event_api_key e \<noteq> [] \<and> loc \<noteq> []
        \<and> requests_get e (events_request e loc prof) = Response st (Inr (JObj kvs))
        \<and> \<not> (400 \<le> st \<and> st < 600)
        \<and> map_of kvs ''events'' = Some (JArr evs)
        \<and> a \<in> set (take 3 evs) \<and> event_of a = Inl ex0
      \<longrightarrow> (\<exists>ex'. query_events e loc prof
            = ([], [HttpGet (events_request e loc prof), Warning EventsFetch ex'])))
   \<and> (event_api_key e \<noteq> [] \<and> loc \<noteq> []
        \<and> requests_get e (events_request e loc prof) = Response st (Inr (JObj kvs))
        \<and> \<not> (400 \<le> st \<and> st < 600)
        \<and> map_of kvs ''events'' = None
      \<longrightarrow> query_events e loc prof = ([], [HttpGet (events_request e loc prof)]))
   \<and> (event_api_key e \<noteq> [] \<and> loc \<noteq> []
        \<and> requests_get e (events_request e loc prof) = Response st (Inr data)
        \<and> \<not> (400 \<le> st \<and> st < 600)
        \<and> event_items data = Inr events
      \<longrightarrow> query_events e loc prof = (events, [HttpGet (events_request e loc prof)]))
   \<and> (query_news e prof = ([], [])
       \<or> (\<exists>found. query_news e prof = (found, [HttpGet (news_request e prof)]))
       \<or> (\<exists>ex'. query_news e prof
                  = ([], [HttpGet (news_request e prof), Warning NewsFetch ex'])))
   \<and> (query_events e loc prof = ([], [])
       \<or> (\<exists>found. query_events e loc prof = (found, [HttpGet (events_request e loc prof)]))
       \<or> (\<exists>ex'. query_events e loc prof
                  = ([], [HttpGet (events_request e loc prof), Warning EventsFetch ex'])))"
proof -
  have n1: "\<And>ex. requests_get e (news_request e prof) = GetRaises ex \<Longrightarrow>
              news_try e (news_request e prof) = Inl ex"
    by (simp add: news_try_def)
  have n2: "\<And>body. requests_get e (news_request e prof) = Response st body \<Longrightarrow>
              400 \<le> st \<and> st < 600 \<Longrightarrow> news_try e (news_request e prof) = Inl HTTPError"
    by (simp add: news_try_def raise_for_status_def)
  have n3: "\<And>body. requests_get e (news_request e prof) = Response st body \<Longrightarrow>
              \<not> (400 \<le> st \<and> st < 600) \<Longrightarrow>
              news_try e (news_request e prof) = bind_exn body news_items"
    by (auto simp add: news_try_def raise_for_status_def)
  have e1: "\<And>ex. requests_get e (events_request e loc prof) = GetRaises ex \<Longrightarrow>
              events_try e (events_request e loc prof) = Inl ex"
    by (simp add: events_try_def)
  have e2: "\<And>body. requests_get e (events_request e loc prof) = Response st body \<Longrightarrow>
              400 \<le> st \<and> st < 600 \<Longrightarrow> events_try e (events_request e loc prof) = Inl HTTPError"
    by (simp add: events_try_def raise_for_status_def)
  have e3: "\<And>body. requests_get e (events_request e loc prof) = Response st body \<Longrightarrow>
              \<not> (400 \<le> st \<and> st < 600) \<Longrightarrow>
              events_try e (events_request e loc prof) = bind_exn body event_items"
    by (auto simp add: events_try_def raise_for_status_def)
  show ?thesis
    apply (intro conjI impI)
    subgoal by (simp add: query_news_raised n1)
    subgoal by (simp add: query_news_raised n2)
    subgoal by (rule query_news_raised) (simp_all add: n3 bind_exn_def)
    subgoal by (rule query_news_raised)
        (simp_all add: n3 bind_exn_def news_items_def py_get_not_object)
    subgoal by (rule query_news_raised) (auto simp add: n3 bind_exn_def news_items_def)
    subgoal using news_fetch_lost [of e prof st kvs arts a ex0] by blast
    subgoal by (rule query_news_returned) (simp_all add: n3 bind_exn_def news_items_def)
    subgoal by (rule query_news_returned) (simp_all add: n3 bind_exn_def)
    subgoal by (simp add: query_events_raised e1)
    subgoal by (simp add: query_events_raised e2)
    subgoal by (rule query_events_raised) (simp_all add: e3 bind_exn_def)
    subgoal by (rule query_events_raised)
        (simp_all add: e3 bind_exn_def event_items_def py_get_not_object)
    subgoal by (rule query_events_raised) (auto simp add: e3 bind_exn_def event_items_def)
    subgoal using events_fetch_lost [of e loc prof st kvs evs a ex0] by blast
    subgoal by (rule query_events_returned) (simp_all add: e3 bind_exn_def event_items_def)
    subgoal by (rule query_events_returned) (simp_all add: e3 bind_exn_def)
    subgoal by (cases "news_try e (news_request e prof)") (auto simp add: query_news_def)
    subgoal by (cases "events_try e (events_request e loc prof)") (auto simp add: query_events_def)
    done
qed


theorem raising_fetch_degrades_witness:
  "query_news (sample_env ''k1'' ''k2'' provider_500 (Streams [] None)) ''designer''
     = ([], [HttpGet (news_request (sample_env ''k1'' ''k2'' provider_500 (Streams [] None))
                        ''designer''),
             Warning NewsFetch HTTPError])
   \<and> query_events (sample_env ''k1'' ''k2'' provider_500 (Streams [] None)) ''Seoul'' ''designer''
     = ([], [HttpGet (events_request (sample_env ''k1'' ''k2'' provider_500 (Streams [] None))
                        ''Seoul'' ''designer''),
             Warning EventsFetch HTTPError])"
  using raising_fetch_degrades
    [where e = "sample_env ''k1'' ''k2'' provider_500 (Streams [] None)"
       and prof = "''designer''" and loc = "''Seoul''" and st = 500
       and body = "Inl JSONDecodeError"]
  by (simp add: sample_env_def provider_500_def)

text \<open>
  C4, as the claim states it, fails: an article without a title is not given an empty
  title. \<open>art["title"]\<close> raises \<open>KeyError\<close>, the whole list is lost and the fetcher
  returns the empty list with a warning.
\<close>

theorem missing_title_counterexample:
  "query_news (sample_env ''k1'' ''k2'' (\<lambda>req. Response 200 (Inr untitled_payload)) (Streams [] None)) ''designer''
     = ([], [HttpGet (news_request (sample_env ''k1'' ''k2'' (\<lambda>req. Response 200 (Inr untitled_payload)) (Streams [] None)) ''designer''),
             Warning NewsFetch (KeyError ''title'')])"
  by (simp add: query_news_def news_try_def raise_for_status_def news_items_def news_of_def bind_exn_def
      sample_env_def untitled_payload_def)

text \<open>
  C4, amended. Only the venue has a default. An event that has \<open>name.text\<close> and \<open>url\<close>,
  whose \<open>start.local\<close> is a string, and whose venue is missing or is an object without
  a name, gives its item with the empty string as venue; when it is the only event of a
  response with a status outside 400 to 599 (to a fetcher that has its credential and a
  location), the fetcher returns that one item with no warning. An event without \<open>name\<close>, \<open>name.text\<close>, \<open>url\<close>, \<open>start\<close> or \<open>start.local\<close>,
  and an article without \<open>title\<close>, \<open>url\<close>, \<open>source\<close> or \<open>source.name\<close>, raises. One
  item that raises, among the articles or among the first three events of such a
  response, loses the whole list: the fetcher returns the empty list, and its trace is
  the request followed by one warning.
\<close>

theorem venue_is_the_only_default:
  "(map_of kvs ''name'' = Some nm \<and> py_getitem nm ''text'' = Inr t
      \<and> map_of kvs ''url'' = Some u
      \<and> map_of kvs ''start'' = Some st \<and> py_getitem st ''local'' = Inr (JStr ls)
      \<and> (map_of kvs ''venue'' = None
         \<or> (\<exists>vkvs. map_of kvs ''venue'' = Some (JObj vkvs) \<and> map_of vkvs ''name'' = None))
      \<longrightarrow> event_of (JObj kvs)
            = Inr \<lparr>name = t, url = u, start = JStr (take 10 ls), venue = JStr []\<rparr>
          \<and> (event_api_key e \<noteq> [] \<and> loc \<noteq> []
             \<and> requests_get e (events_request e loc prof) = Response code (Inr (JObj dkvs))
             \<and> map_of dkvs ''events'' = Some (JArr [JObj kvs])
             \<and> \<not> (400 \<le> code \<and> code < 600)
             \<longrightarrow> query_events e loc prof
                   = ([\<lparr>name = t, url = u, start = JStr (take 10 ls), venue = JStr []\<rparr>],
                      [HttpGet (events_request e loc prof)])))
   \<and> (map_of kvs ''name'' = None \<or> map_of kvs ''url'' = None \<or> map_of kvs ''start'' = None
       \<or> (\<exists>nkvs. map_of kvs ''name'' = Some (JObj nkvs) \<and> map_of nkvs ''text'' = None)
       \<or> (\<exists>skvs. map_of kvs ''start'' = Some (JObj skvs) \<and> map_of skvs ''local'' = None)
      \<longrightarrow> (\<exists>ex. event_of (JObj kvs) = Inl ex))
   \<and> (map_of kvs ''title'' = None \<or> map_of kvs ''url'' = None \<or> map_of kvs ''source'' = None
       \<or> (\<exists>skvs. map_of kvs ''source'' = Some (JObj skvs) \<and> map_of skvs ''name'' = None)
      \<longrightarrow> (\<exists>ex. news_of (JObj kvs) = Inl ex))
   \<and> (news_api_key e \<noteq> []
       \<and> requests_get e (news_request e prof) = Response code (Inr (JObj dkvs))
       \<and> \<not> (400 \<le> code \<and> code < 600)
       \<and> map_of dkvs ''articles'' = Some (JArr arts)
       \<and> a \<in> set arts \<and> news_of a = Inl ex0
      \<longrightarrow> (\<exists>ex. query_news e prof
                   = ([], [HttpGet (news_request e prof), Warning NewsFetch ex])))
   \<and> (event_api_key e \<noteq> [] \<and> loc \<noteq> []
       \<and> requests_get e (events_request e loc prof) = Response code (Inr (JObj dkvs))
       \<and> \<not> (400 \<le> code \<and> code < 600)
       \<and> map_of dkvs ''events'' = Some (JArr evs)
       \<and> a \<in> set (take 3 evs) \<and> event_of a = Inl ex0
      \<longrightarrow> (\<exists>ex. query_events e loc prof
                   = ([], [HttpGet (events_request e loc prof), Warning EventsFetch ex])))"
proof (intro conjI impI)
  assume h: "map_of kvs ''name'' = Some nm \<and> py_getitem nm ''text'' = Inr t
      \<and> map_of kvs ''url'' = Some u
      \<and> map_of kvs ''start'' = Some st \<and> py_getitem st ''local'' = Inr (JStr ls)
      \<and> (map_of kvs ''venue'' = None
         \<or> (\<exists>vkvs. map_of kvs ''venue'' = Some (JObj vkvs) \<and> map_of vkvs ''name'' = None))"
  then show item: "event_of (JObj kvs)
            = Inr \<lparr>name = t, url = u, start = JStr (take 10 ls), venue = JStr []\<rparr>"
    by (auto simp add: event_of_def bind_exn_def)
  assume r: "event_api_key e \<noteq> [] \<and> loc \<noteq> []
             \<and> requests_get e (events_request e loc prof) = Response code (Inr (JObj dkvs))
             \<and> map_of dkvs ''events'' = Some (JArr [JObj kvs])
             \<and> \<not> (400 \<le> code \<and> code < 600)"
  then have "events_try e (events_request e loc prof)
      = Inr [\<lparr>name = t, url = u, start = JStr (take 10 ls), venue = JStr []\<rparr>]"
    using item by (auto simp add: events_try_def raise_for_status_def event_items_def bind_exn_def)
  with r show "query_events e loc prof
                   = ([\<lparr>name = t, url = u, start = JStr (take 10 ls), venue = JStr []\<rparr>],
                      [HttpGet (events_request e loc prof)])"
    by (simp add: query_events_returned)
next
  assume "map_of kvs ''name'' = None \<or> map_of kvs ''url'' = None \<or> map_of kvs ''start'' = None
       \<or> (\<exists>nkvs. map_of kvs ''name'' = Some (JObj nkvs) \<and> map_of nkvs ''text'' = None)
       \<or> (\<exists>skvs. map_of kvs ''start'' = Some (JObj skvs) \<and> map_of skvs ''local'' = None)"
  then show "\<exists>ex. event_of (JObj kvs) = Inl ex"
    by (auto simp add: event_of_def bind_exn_def split: option.splits sum.splits)
next
  assume "map_of kvs ''title'' = None \<or> map_of kvs ''url'' = None \<or> map_of kvs ''source'' = None
       \<or> (\<exists>skvs. map_of kvs ''source'' = Some (JObj skvs) \<and> map_of skvs ''name'' = None)"
  then show "\<exists>ex. news_of (JObj kvs) = Inl ex"
    by (auto simp add: news_of_def bind_exn_def split: option.splits sum.splits)
next
  assume "news_api_key e \<noteq> []
       \<and> requests_get e (news_request e prof) = Response code (Inr (JObj dkvs))
       \<and> \<not> (400 \<le> code \<and> code < 600)
       \<and> map_of dkvs ''articles'' = Some (JArr arts)
       \<and> a \<in> set arts \<and> news_of a = Inl ex0"
  then show "\<exists>ex. query_news e prof
                   = ([], [HttpGet (news_request e prof), Warning NewsFetch ex])"
    using news_fetch_lost [of e prof code dkvs arts a ex0] by blast
next
  assume "event_api_key e \<noteq> [] \<and> loc \<noteq> []
       \<and> requests_get e (events_request e loc prof) = Response code (Inr (JObj dkvs))
       \<and> \<not> (400 \<le> code \<and> code < 600)
       \<and> map_of dkvs ''events'' = Some (JArr evs)
       \<and> a \<in> set (take 3 evs) \<and> event_of a = Inl ex0"
  then show "\<exists>ex. query_events e loc prof
                   = ([], [HttpGet (events_request e loc prof), Warning EventsFetch ex])"
    using events_fetch_lost [of e loc prof code dkvs evs a ex0] by blast
qed

theorem venue_is_the_only_default_witness:
  "event_of (JObj event_no_venue)
     = Inr \<lparr>name = JStr ''Meetup'', url = JStr ''https://example.org/e'',
            start = JStr ''2025-06-10'', venue = JStr []\<rparr>
   \<and> query_events (sample_env ''k1'' ''k2'' provider_event_no_venue (Streams [] None))
        ''Seoul'' ''designer''
     = ([\<lparr>name = JStr ''Meetup'', url = JStr ''https://example.org/e'',
            start = JStr ''2025-06-10'', venue = JStr []\<rparr>],
        [HttpGet (events_request (sample_env ''k1'' ''k2'' provider_event_no_venue (Streams [] None))
                    ''Seoul'' ''designer'')])"
  using venue_is_the_only_default
    [where kvs = event_no_venue and nm = "JObj [(''text'', JStr ''Meetup'')]"
       and t = "JStr ''Meetup''" and u = "JStr ''https://example.org/e''"
       and st = "JObj [(''local'', JStr ''2025-06-10T19:00:00'')]"
       and ls = "''2025-06-10T19:00:00''"
       and e = "sample_env ''k1'' ''k2'' provider_event_no_venue (Streams [] None)"
       and loc = "''Seoul''" and prof = "''designer''" and code = 200
       and dkvs = "[(''events'', JArr [JObj event_no_venue])]"]
  by (simp add: event_no_venue_def sample_env_def provider_event_no_venue_def)

subsection \<open>The command test\<close>

lemma py_lower_space: "py_isspace c \<Longrightarrow> py_lower c = c"
  by (auto simp add: py_isspace_def py_lower_def Let_def)

lemma not_space_of_lower: "py_lower c = d \<Longrightarrow> \<not> py_isspace d \<Longrightarrow> \<not> py_isspace c"
  using py_lower_space by auto

lemma slash_not_space: "\<not> py_isspace (CHR ''/'')"
  by (simp add: py_isspace_def)

lemma f_not_space: "\<not> py_isspace (CHR ''f'')"
  by (simp add: py_isspace_def)

lemma strip_keeps_core:
  assumes ws: "\<forall>c\<in>set ws. py_isspace c"
    and ne: "cmd \<noteq> []"
    and h: "\<not> py_isspace (hd cmd)"
    and l: "\<not> py_isspace (last cmd)"
  shows "\<exists>r. strip (ws @ cmd @ rest) = cmd @ r"
proof -
  from ne h have "dropWhile py_isspace (cmd @ rest) = cmd @ rest"
    by (cases cmd) auto
  with ws have front: "dropWhile py_isspace (ws @ cmd @ rest) = cmd @ rest"
    by (simp add: dropWhile_append)
  from ne l have tail: "dropWhile py_isspace (rev cmd) = rev cmd"
    by (cases cmd rule: rev_cases) auto
  show ?thesis
  proof (cases "\<forall>c\<in>set rest. py_isspace c")
    case True
    then have "strip (ws @ cmd @ rest) = cmd @ []"
      using front tail by (simp add: strip_def dropWhile_append)
    then show ?thesis by blast
  next
    case False
    then have "strip (ws @ cmd @ rest) = cmd @ rev (dropWhile py_isspace (rev rest))"
      using front by (auto simp add: strip_def dropWhile_append)
    then show ?thesis by blast
  qed
qed

lemma strip_decomposition:
  "\<exists>ws trail. s = ws @ strip s @ trail \<and> (\<forall>c\<in>set ws. py_isspace c)"
proof -
  let ?m = "dropWhile py_isspace s"
  have "?m = rev (rev ?m)"
    by simp
  also have "\<dots> = rev (takeWhile py_isspace (rev ?m) @ dropWhile py_isspace (rev ?m))"
    by (simp only: takeWhile_dropWhile_id)
  also have "\<dots> = strip s @ rev (takeWhile py_isspace (rev ?m))"
    by (simp only: rev_append strip_def)
  finally have m: "?m = strip s @ rev (takeWhile py_isspace (rev ?m))" .
  have "s = takeWhile py_isspace s @ ?m"
    by simp
  with m have "s = takeWhile py_isspace s @ strip s @ rev (takeWhile py_isspace (rev ?m))"
    by simp
  moreover have "\<forall>c\<in>set (takeWhile py_isspace s). py_isspace c"
    by (auto dest: set_takeWhileD)
  ultimately show ?thesis by blast
qed

text \<open>
  C6. The test of the handler is a total function of the text. It holds exactly when the
  text is some whitespace, then the six characters of \<open>/brief\<close> in any mix of cases,
  then anything at all; every other text is plain chat.
\<close>

theorem brief_command_iff:
  "brief_command user_input
     \<longleftrightarrow> (\<exists>ws cmd rest. user_input = ws @ cmd @ rest
                          \<and> (\<forall>c\<in>set ws. py_isspace c) \<and> lower cmd = ''/brief'')"
proof
  assume b: "brief_command user_input"
  obtain ws trail where d: "user_input = ws @ strip user_input @ trail"
    and ws: "\<forall>c\<in>set ws. py_isspace c"
    using strip_decomposition by blast
  let ?s = "strip user_input"
  let ?n = "length ''/brief''"
  from b have "lower (take ?n ?s) = ''/brief''"
    by (simp only: brief_command_def startswith_def lower_def take_map)
  moreover have "user_input = ws @ take ?n ?s @ (drop ?n ?s @ trail)"
    using d by (simp only: append_assoc [symmetric] append_take_drop_id)
  ultimately show "\<exists>ws cmd rest. user_input = ws @ cmd @ rest
                          \<and> (\<forall>c\<in>set ws. py_isspace c) \<and> lower cmd = ''/brief''"
    using ws by blast
next
  assume "\<exists>ws cmd rest. user_input = ws @ cmd @ rest
                          \<and> (\<forall>c\<in>set ws. py_isspace c) \<and> lower cmd = ''/brief''"
  then obtain ws cmd rest where u: "user_input = ws @ cmd @ rest"
    and ws: "\<forall>c\<in>set ws. py_isspace c" and c: "lower cmd = ''/brief''"
    by blast
  from c have ne: "cmd \<noteq> []"
    by (auto simp add: lower_def)
  from c ne have "py_lower (hd cmd) = CHR ''/''"
    by (cases cmd) (auto simp add: lower_def)
  then have h: "\<not> py_isspace (hd cmd)"
    using not_space_of_lower slash_not_space by blast
  from c ne have "py_lower (last cmd) = last ''/brief''"
    by (simp add: lower_def last_map [symmetric])
  then have "py_lower (last cmd) = CHR ''f''"
    by simp
  then have l: "\<not> py_isspace (last cmd)"
    using not_space_of_lower f_not_space by blast
  from strip_keeps_core [OF ws ne h l] obtain r where "strip (ws @ cmd @ rest) = cmd @ r"
    by blast
  with u c show "brief_command user_input"
    by (simp add: brief_command_def startswith_def lower_def)
qed

theorem brief_command_iff_witness:
  "brief_command ''  /BRIEF now'' \<and> \<not> brief_command ''hello''"
proof -
  have "''  /BRIEF now'' = ''  '' @ ''/BRIEF'' @ '' now''
        \<and> (\<forall>c\<in>set ''  ''. py_isspace c) \<and> lower ''/BRIEF'' = ''/brief''"
    by code_simp
  then have "brief_command ''  /BRIEF now''"
    using brief_command_iff [of "''  /BRIEF now''"] by blast
  moreover have "\<not> brief_command ''hello''"
    by code_simp
  ultimately show ?thesis by simp
qed

subsection \<open>The briefing text\<close>

lemma sublist_mid: "sublist x (a @ x @ b)"
  by (auto simp add: sublist_def)

lemma sublist_in: "sublist x y \<Longrightarrow> sublist x (a @ y @ b)"
  by (meson sublist_mid sublist_order.order_trans)

lemma sublist_join: "x \<in> set xs \<Longrightarrow> sublist x (join sep xs)"
proof (induction sep xs rule: join.induct)
  case (1 sep)
  then show ?case by simp
next
  case (2 sep x')
  then show ?case by simp
next
  case (3 sep x' y ys)
  show ?case
  proof (cases "x = x'")
    case True
    then have "sublist x ([] @ x @ sep @ join sep (y # ys))"
      by (simp only: sublist_mid)
    with True show ?thesis by simp
  next
    case False
    with 3 have "sublist x (join sep (y # ys))" by simp
    then have "sublist x ((x' @ sep) @ join sep (y # ys) @ [])"
      by (rule sublist_in)
    then show ?thesis by simp
  qed
qed

lemma context_is_template:
  "briefing_context e news events = buildBriefingAugmentation e news events"
  by (simp add: briefing_context_def buildBriefingAugmentation_def preamble_def
      news_section_def events_section_def no_data_marker_def closing_instruction_def Let_def)

lemma news_line_listed: "n \<in> set news \<Longrightarrow> sublist (news_line e n) (news_section e news)"
  unfolding news_section_def by (rule sublist_in, rule sublist_join) simp

lemma event_line_listed:
  "ev \<in> set events \<Longrightarrow> sublist (event_line e ev) (events_section e events)"
  unfolding events_section_def by (rule sublist_in, rule sublist_join) simp

lemma news_line_fields:
  "sublist (fmt e (title n)) (news_line e n) \<and> sublist (fmt e (source n)) (news_line e n)"
proof -
  have "news_line e n = ''- '' @ fmt e (title n) @ ('' ('' @ fmt e (source n) @ '')'')"
    and "news_line e n = (''- '' @ fmt e (title n) @ '' ('') @ fmt e (source n) @ '')''"
    by (simp_all add: news_line_def)
  then show ?thesis
    by (metis sublist_mid)
qed

lemma event_line_fields:
  "sublist (fmt e (start ev)) (event_line e ev) \<and> sublist (fmt e (name ev)) (event_line e ev)
   \<and> sublist (fmt e (venue ev)) (event_line e ev)"
proof -
  have "event_line e ev = ''- '' @ fmt e (start ev) @ ('' '' @ fmt e (name ev) @ '' @ '' @ fmt e (venue ev))"
    and "event_line e ev = (''- '' @ fmt e (start ev) @ '' '') @ fmt e (name ev) @ ('' @ '' @ fmt e (venue ev))"
    and "event_line e ev = (''- '' @ fmt e (start ev) @ '' '' @ fmt e (name ev) @ '' @ '') @ fmt e (venue ev) @ []"
    by (simp_all add: event_line_def)
  then show ?thesis
    by (metis sublist_mid)
qed

lemma closing_words:
  "sublist ''bullet points'' closing_instruction \<and> sublist ''max 120 words'' closing_instruction
   \<and> sublist ''suggest next actions'' closing_instruction"
  unfolding closing_instruction_def by code_simp

text \<open>
  C7. The text built by the handler is the template: the preamble, then the news section
  exactly when there is news, then the events section exactly when there are events,
  then the marker exactly when there is neither, then the closing instruction. The news
  section lists the line of every item, which holds its title and source; the events
  section lists the line of every event, which holds its date, name and venue. The text
  always ends with the closing instruction (bullet points, at most 120 words, next actions).
\<close>

theorem briefing_template:
  "briefing_context e news events = buildBriefingAugmentation e news events
   \<and> (\<forall>n\<in>set news. sublist (news_line e n) (news_section e news)
         \<and> sublist (fmt e (title n)) (news_line e n)
         \<and> sublist (fmt e (source n)) (news_line e n))
   \<and> (\<forall>ev\<in>set events. sublist (event_line e ev) (events_section e events)
         \<and> sublist (fmt e (start ev)) (event_line e ev)
         \<and> sublist (fmt e (name ev)) (event_line e ev)
         \<and> sublist (fmt e (venue ev)) (event_line e ev))
   \<and> prefix ''Recent news'' (news_section e news)
   \<and> prefix ''Upcoming events'' (events_section e events)
   \<and> sublist ''No external data available'' no_data_marker
   \<and> suffix closing_instruction (briefing_context e news events)
   \<and> sublist ''bullet points'' closing_instruction
   \<and> sublist ''max 120 words'' closing_instruction
   \<and> sublist ''suggest next actions'' closing_instruction"
proof -
  have "prefix ''Recent news'' (news_section e news)"
    by (simp add: news_section_def)
  moreover have "prefix ''Upcoming events'' (events_section e events)"
    by (simp add: events_section_def)
  moreover have "sublist ''No external data available'' no_data_marker"
    unfolding no_data_marker_def by code_simp
  moreover have "suffix closing_instruction (briefing_context e news events)"
    by (simp add: context_is_template buildBriefingAugmentation_def suffix_def)
  ultimately show ?thesis
    using context_is_template news_line_listed news_line_fields event_line_listed
      event_line_fields closing_words
    by simp
qed

theorem briefing_template_witness:
  "briefing_context (sample_env ''k1'' ''k2'' provider_one_news (Streams [] None))
      [\<lparr>title = JStr ''A'', url = JStr ''https://example.org/a'', source = JStr ''S''\<rparr>] []
     = ''You gathered the following data:\<newline>\<newline>Recent news headlines:\<newline>- A (S)\<newline>\<newline>Please craft a Korean daily briefing in bullet points (max 120 words), then suggest next actions.''
   \<and> buildBriefingAugmentation (sample_env ''k1'' ''k2'' provider_one_news (Streams [] None)) [] []
     = ''You gathered the following data:\<newline>\<newline>(No external data available)\<newline>\<newline>Please craft a Korean daily briefing in bullet points (max 120 words), then suggest next actions.''"
  using briefing_template [of "sample_env ''k1'' ''k2'' provider_one_news (Streams [] None)"
     "[\<lparr>title = JStr ''A'', url = JStr ''https://example.org/a'', source = JStr ''S''\<rparr>]" "[]"]
  by (simp add: buildBriefingAugmentation_def preamble_def news_section_def news_line_def
      fmt_def no_data_marker_def closing_instruction_def)

subsection \<open>Facts about the command test and the display loop\<close>

lemma brief_slash: "brief_command ''/brief''"
  by code_simp

lemma display_only_chat:
  "llm_calls (display_messages msgs) = [] \<and> http_gets (display_messages msgs) = []
   \<and> warnings_of (display_messages msgs) = [] \<and> ErrorBox \<notin> set (display_messages msgs)"
  by (induction msgs) auto

lemma strip_blank:
  assumes "\<forall>c\<in>set s. py_isspace c"
  shows "strip s = []"
proof -
  from assms have d: "dropWhile py_isspace s = []"
    by simp
  show ?thesis
    unfolding strip_def d by simp
qed

lemma blank_not_brief: "\<forall>c\<in>set s. py_isspace c \<Longrightarrow> \<not> brief_command s"
  by (simp add: brief_command_def strip_blank lower_def startswith_def)

subsection \<open>What is shown and what is sent\<close>





lemma llm_calls_append: "llm_calls (a @ b) = llm_calls a @ llm_calls b"
  by (induction a rule: llm_calls.induct) auto

lemma payload_append: "payload (a @ b) = payload a @ payload b"
  by (simp add: payload_def)

lemma replay_quiet:
  "chat_messages (map (\<lambda>(k, ex). Warning k ex) shown) = []
   \<and> llm_calls (map (\<lambda>(k, ex). Warning k ex) shown) = []"
  by (induction shown) (auto simp add: chat_messages_def)

lemma query_news_quiet:
  "chat_messages (snd (query_news e p)) = [] \<and> llm_calls (snd (query_news e p)) = []"
  by (simp add: query_news_def chat_messages_def Let_def split: sum.splits)

lemma query_events_quiet:
  "chat_messages (snd (query_events e l p)) = [] \<and> llm_calls (snd (query_events e l p)) = []"
  by (simp add: query_events_def chat_messages_def Let_def split: sum.splits)

lemma fetch_quiet:
  assumes "fetch_news_and_events e p l c = (res, c', tf)"
  shows "chat_messages tf = [] \<and> llm_calls tf = []"
proof (cases "c (p, l)")
  case None
  with assms have "tf = snd (query_news e p) @ snd (query_events e l p)"
    by (auto simp add: fetch_news_and_events_def Let_def split: prod.splits)
  then show ?thesis
    using query_news_quiet [of e p] query_events_quiet [of e l p]
    by (simp add: llm_calls_append chat_messages_def)
next
  case (Some v)
  with assms obtain shown where "tf = map (\<lambda>(k, ex). Warning k ex) shown"
    by (auto simp add: fetch_news_and_events_def split: prod.splits)
  then show ?thesis
    by (simp add: replay_quiet)
qed

text \<open>What a run of the handler leaves behind, in the three ways it can end.\<close>

lemma handle_input_shape:
  assumes "handle_input e user_input msgs c = (r, msgs', c', tr)"
  shows "\<exists>aug tf rest.
           (\<forall>m\<in>set aug. role m = System)
           \<and> chat_messages tf = [] \<and> llm_calls tf = [] \<and> llm_calls rest = []
           \<and> tr = ChatMessage User user_input # tf
                    @ LlmCall (payload (msgs @ \<lparr>role = User, content = user_input\<rparr> # aug)) # rest
           \<and> (aug = [] \<or> (brief_command user_input \<and> (\<exists>news events c2 t2.
                  fetch_news_and_events e (profession e) (location e) c = ((news, events), c2, t2)
                  \<and> aug = [\<lparr>role = System, content = briefing_context e news events\<rparr>])))
           \<and> (brief_command user_input \<longrightarrow> aug \<noteq> [])
           \<and> ((r = Completed \<and> (\<exists>a. msgs' = msgs @ \<lparr>role = User, content = user_input\<rparr> # aug
                                              @ [\<lparr>role = Assistant, content = a\<rparr>]
                                    \<and> rest = [ChatMessage Assistant a]))
              \<or> (r \<noteq> Completed \<and> msgs' = msgs @ \<lparr>role = User, content = user_input\<rparr> # aug))"
proof -
  obtain news events c2 t2
    where f: "fetch_news_and_events e (profession e) (location e) c = ((news, events), c2, t2)"
    by (metis prod.collapse)
  from fetch_quiet [OF f] have q: "chat_messages t2 = []" "llm_calls t2 = []"
    by simp_all
  define aug where
    "aug = (if brief_command user_input
            then [\<lparr>role = System, content = briefing_context e news events\<rparr>] else [])"
  define tf where "tf = (if brief_command user_input then t2 else [])"
  define ms2 where "ms2 = msgs @ \<lparr>role = User, content = user_input\<rparr> # aug"
  have a1: "\<forall>m\<in>set aug. role m = System"
    by (simp add: aug_def)
  have a2: "chat_messages tf = [] \<and> llm_calls tf = []"
    using q by (simp add: tf_def chat_messages_def)
  have a3: "aug = [] \<or> (brief_command user_input \<and> (\<exists>news events c2 t2.
                  fetch_news_and_events e (profession e) (location e) c = ((news, events), c2, t2)
                  \<and> aug = [\<lparr>role = System, content = briefing_context e news events\<rparr>]))"
    using f by (auto simp add: aug_def)
  have a4: "brief_command user_input \<longrightarrow> aug \<noteq> []"
    by (simp add: aug_def)
  show ?thesis
  proof (cases "chat_completions_create e (payload ms2)")
    case (CreateRaises ex)
    with assms f have "r = Raised ex \<and> msgs' = ms2
        \<and> tr = ChatMessage User user_input # tf @ LlmCall (payload ms2) # []"
      by (auto simp add: handle_input_def ms2_def aug_def tf_def Let_def)
    with a1 a2 a3 a4 show ?thesis
      unfolding ms2_def by (intro exI [of _ aug] exI [of _ tf] exI [of _ "[]"]) simp
  next
    case (Streams chunks err)
    show ?thesis
    proof (cases err)
      case None
      with Streams assms f have "r = Completed
          \<and> msgs' = ms2 @ [\<lparr>role = Assistant, content = concat chunks\<rparr>]
          \<and> tr = ChatMessage User user_input # tf @ LlmCall (payload ms2)
                   # [ChatMessage Assistant (concat chunks)]"
        by (auto simp add: handle_input_def ms2_def aug_def tf_def Let_def)
      with a1 a2 a3 a4 show ?thesis
        unfolding ms2_def
        by (intro exI [of _ aug] exI [of _ tf] exI [of _ "[ChatMessage Assistant (concat chunks)]"])
          simp
    next
      case (Some ex)
      with Streams assms f have "r = Raised ex \<and> msgs' = ms2
          \<and> tr = ChatMessage User user_input # tf @ LlmCall (payload ms2)
                   # [ChatMessage Assistant (concat chunks)]"
        by (auto simp add: handle_input_def ms2_def aug_def tf_def Let_def)
      with a1 a2 a3 a4 show ?thesis
        unfolding ms2_def
        by (intro exI [of _ aug] exI [of _ tf] exI [of _ "[ChatMessage Assistant (concat chunks)]"])
          simp
    qed
  qed
qed


lemma script_run_cases:
  assumes key: "openai_api_key e \<noteq> []"
    and run: "script_run e inp s = (r, s', tr)"
  shows "((inp = None \<or> inp = Some []) \<and> r = Completed
            \<and> s' = s\<lparr>messages := Some (session_messages e s)\<rparr>
            \<and> tr = display_messages (session_messages e s))
         \<or> (\<exists>user_input msgs' c' tr0. inp = Some user_input \<and> user_input \<noteq> []
               \<and> handle_input e user_input (session_messages e s) (cache s) = (r, msgs', c', tr0)
               \<and> s' = \<lparr>messages = Some msgs', cache = c'\<rparr>
               \<and> tr = display_messages (session_messages e s) @ tr0)"
proof (cases inp)
  case None
  with key run show ?thesis
    by (auto simp add: script_run_def Let_def)
next
  case (Some user_input)
  show ?thesis
  proof (cases "user_input = []")
    case True
    with Some key run show ?thesis
      by (auto simp add: script_run_def Let_def)
  next
    case False
    obtain r0 msgs' c' tr0
      where h: "handle_input e user_input (session_messages e s) (cache s) = (r0, msgs', c', tr0)"
      by (metis prod.collapse)
    with Some False key run show ?thesis
      by (auto simp add: script_run_def Let_def)
  qed
qed




lemma payload_prefix: "prefix (payload (a @ b)) p \<Longrightarrow> prefix (payload a) p"
  by (auto simp add: payload_append dest: append_prefixD)

lemma brief_not_empty: "brief_command user_input \<Longrightarrow> user_input \<noteq> []"
  by (auto simp add: brief_command_def strip_def lower_def startswith_def)

lemma script_run_extends:
  assumes run: "script_run e inp s = (r, s', tr)"
    and ms: "messages s = Some ms"
  shows "\<exists>ext. messages s' = Some (ms @ ext) \<and> (\<forall>p\<in>set (llm_calls tr). prefix (payload ms) p)"
proof (cases "openai_api_key e = []")
  case True
  with run ms show ?thesis
    by (auto simp add: script_run_def)
next
  case False
  from ms have ms0: "session_messages e s = ms"
    by (simp add: session_messages_def)
  from script_run_cases [OF False run]
  consider (idle) "s' = s\<lparr>messages := Some ms\<rparr>" "tr = display_messages ms"
    | (input) user_input msgs' c' tr0 where "handle_input e user_input ms (cache s) = (r, msgs', c', tr0)"
        "s' = \<lparr>messages = Some msgs', cache = c'\<rparr>" "tr = display_messages ms @ tr0"
    unfolding ms0 by blast
  then show ?thesis
  proof cases
    case idle
    then show ?thesis
      by (simp add: display_only_chat)
  next
    case input
    from handle_input_shape [OF input(1)] obtain aug tf rest
      where quiet: "llm_calls tf = []" "llm_calls rest = []"
        and tr0: "tr0 = ChatMessage User user_input # tf
                    @ LlmCall (payload (ms @ \<lparr>role = User, content = user_input\<rparr> # aug)) # rest"
        and fin: "(r = Completed \<and> (\<exists>a. msgs' = ms @ \<lparr>role = User, content = user_input\<rparr> # aug
                                              @ [\<lparr>role = Assistant, content = a\<rparr>]
                                    \<and> rest = [ChatMessage Assistant a]))
              \<or> (r \<noteq> Completed \<and> msgs' = ms @ \<lparr>role = User, content = user_input\<rparr> # aug)"
      by blast
    have "llm_calls tr = [payload (ms @ \<lparr>role = User, content = user_input\<rparr> # aug)]"
      using input(3) tr0 quiet by (simp add: llm_calls_append display_only_chat)
    moreover have "\<exists>ext. msgs' = ms @ ext"
      using fin by auto
    ultimately show ?thesis
      using input(2) by (auto simp add: payload_append)
  qed
qed

lemma session_run_extends:
  "session_run steps s = (s', tr) \<Longrightarrow> messages s = Some ms \<Longrightarrow>
     \<exists>ext. messages s' = Some (ms @ ext) \<and> (\<forall>p\<in>set (llm_calls tr). prefix (payload ms) p)"
proof (induction steps arbitrary: s s' ms tr)
  case Nil
  then show ?case by simp
next
  case (Cons step steps)
  obtain e inp where step: "step = (e, inp)"
    by (cases step)
  obtain r s1 t1 where one: "script_run e inp s = (r, s1, t1)"
    by (metis prod.collapse)
  obtain s2 t2 where more: "session_run steps s1 = (s2, t2)"
    by (metis prod.collapse)
  from Cons.prems(1) step one more have res: "s' = s2" "tr = t1 @ t2"
    by simp_all
  from script_run_extends [OF one Cons.prems(2)] obtain ext1
    where m1: "messages s1 = Some (ms @ ext1)"
      and p1: "\<forall>p\<in>set (llm_calls t1). prefix (payload ms) p"
    by blast
  from Cons.IH [OF more m1] obtain ext2
    where m2: "messages s2 = Some ((ms @ ext1) @ ext2)"
      and p2: "\<forall>p\<in>set (llm_calls t2). prefix (payload (ms @ ext1)) p"
    by blast
  have "\<forall>p\<in>set (llm_calls t2). prefix (payload ms) p"
    using p2 payload_prefix by blast
  with p1 m2 res show ?case
    by (auto simp add: llm_calls_append)
qed

lemma fresh_brief_run:
  assumes key: "openai_api_key e \<noteq> []"
    and fresh: "messages s = None"
    and brief: "brief_command user_input"
    and fetch: "fetch_news_and_events e (profession e) (location e) (cache s)
                  = ((news, events), c', tf)"
    and answer: "chat_completions_create e
                   (payload [\<lparr>role = System, content = build_system_prompt e\<rparr>,
                             \<lparr>role = User, content = user_input\<rparr>,
                             \<lparr>role = System, content = briefing_context e news events\<rparr>])
                 = Streams chunks None"
  shows "script_run e (Some user_input) s
      = (Completed,
         \<lparr>messages = Some [\<lparr>role = System, content = build_system_prompt e\<rparr>,
                           \<lparr>role = User, content = user_input\<rparr>,
                           \<lparr>role = System, content = briefing_context e news events\<rparr>,
                           \<lparr>role = Assistant, content = concat chunks\<rparr>],
          cache = c'\<rparr>,
         display_messages [\<lparr>role = System, content = build_system_prompt e\<rparr>]
         @ [ChatMessage User user_input] @ tf
         @ [LlmCall (payload [\<lparr>role = System, content = build_system_prompt e\<rparr>,
                             \<lparr>role = User, content = user_input\<rparr>,
                             \<lparr>role = System, content = briefing_context e news events\<rparr>]),
            ChatMessage Assistant (concat chunks)])"
  using key fresh fetch answer brief brief_not_empty [OF brief]
  by (simp add: script_run_def session_messages_def handle_input_def)

text \<open>
  C10. After a run that handled a \<open>/brief\<close> command, the session's transcript is the
  earlier messages, the user turn and the augmentation, then what came after; whatever
  runs follow in the session (with any settings, inputs and answers), the transcript
  still starts so, and every model call of that run and of the later ones is sent a
  payload that starts with these turns, the augmentation among them.
\<close>

theorem augmentation_persists:
  assumes key: "openai_api_key e \<noteq> []"
    and brief: "brief_command user_input"
    and fetch: "fetch_news_and_events e (profession e) (location e) (cache s)
                  = ((news, events), c', tf)"
    and run: "script_run e (Some user_input) s = (r, s1, t1)"
    and later: "session_run steps s1 = (s2, t2)"
  shows "\<exists>ext1 ext2.
           messages s1
             = Some (session_messages e s
                     @ [\<lparr>role = User, content = user_input\<rparr>,
                        \<lparr>role = System, content = briefing_context e news events\<rparr>] @ ext1)
           \<and> messages s2
             = Some (session_messages e s
                     @ [\<lparr>role = User, content = user_input\<rparr>,
                        \<lparr>role = System, content = briefing_context e news events\<rparr>] @ ext1 @ ext2)
           \<and> (\<forall>p\<in>set (llm_calls (t1 @ t2)).
                 prefix (payload (session_messages e s
                           @ [\<lparr>role = User, content = user_input\<rparr>,
                              \<lparr>role = System, content = briefing_context e news events\<rparr>])) p
                 \<and> (System, briefing_context e news events) \<in> set p)"
proof -
  let ?kept = "session_messages e s
                 @ [\<lparr>role = User, content = user_input\<rparr>,
                    \<lparr>role = System, content = briefing_context e news events\<rparr>]"
  from brief have ne: "user_input \<noteq> []"
    by (rule brief_not_empty)
  from script_run_cases [OF key run] ne obtain msgs' c2 tr0
    where h: "handle_input e user_input (session_messages e s) (cache s) = (r, msgs', c2, tr0)"
      and s1: "s1 = \<lparr>messages = Some msgs', cache = c2\<rparr>"
      and t1: "t1 = display_messages (session_messages e s) @ tr0"
    by auto
  from handle_input_shape [OF h] obtain aug tf' rest
    where quiet: "llm_calls tf' = []" "llm_calls rest = []"
      and tr0': "tr0 = ChatMessage User user_input # tf'
                   @ LlmCall (payload (session_messages e s
                                @ \<lparr>role = User, content = user_input\<rparr> # aug)) # rest"
      and aug: "aug = [] \<or> (brief_command user_input \<and> (\<exists>news events c2 t2.
                  fetch_news_and_events e (profession e) (location e) (cache s)
                    = ((news, events), c2, t2)
                  \<and> aug = [\<lparr>role = System, content = briefing_context e news events\<rparr>]))"
      and nonempty: "brief_command user_input \<longrightarrow> aug \<noteq> []"
      and fin': "(r = Completed \<and> (\<exists>a. msgs' = session_messages e s
                                       @ \<lparr>role = User, content = user_input\<rparr> # aug
                                       @ [\<lparr>role = Assistant, content = a\<rparr>]
                                    \<and> rest = [ChatMessage Assistant a]))
              \<or> (r \<noteq> Completed
                  \<and> msgs' = session_messages e s @ \<lparr>role = User, content = user_input\<rparr> # aug)"
    by blast
  from aug nonempty brief fetch
  have aug_eq: "aug = [\<lparr>role = System, content = briefing_context e news events\<rparr>]"
    by auto
  from tr0' aug_eq
  have tr0: "tr0 = ChatMessage User user_input # tf' @ LlmCall (payload ?kept) # rest"
    by simp
  from fin' aug_eq
  have fin: "(\<exists>a. msgs' = ?kept @ [\<lparr>role = Assistant, content = a\<rparr>]) \<or> msgs' = ?kept"
    by auto
  from fin obtain ext1 where m1: "msgs' = ?kept @ ext1"
    by auto
  have c1: "llm_calls t1 = [payload ?kept]"
    using t1 tr0 quiet by (simp add: llm_calls_append display_only_chat)
  from s1 m1 have ms1: "messages s1 = Some (?kept @ ext1)"
    by simp
  from session_run_extends [OF later ms1] obtain ext2
    where m2: "messages s2 = Some ((?kept @ ext1) @ ext2)"
      and p2: "\<forall>p\<in>set (llm_calls t2). prefix (payload (?kept @ ext1)) p"
    by blast
  from p2 have "\<forall>p\<in>set (llm_calls t2). prefix (payload ?kept) p"
    using payload_prefix by blast
  with c1 have pre: "\<forall>p\<in>set (llm_calls (t1 @ t2)). prefix (payload ?kept) p"
    by (simp add: llm_calls_append)
  have "(System, briefing_context e news events) \<in> set (payload ?kept)"
    by (simp add: payload_def)
  with pre have "\<forall>p\<in>set (llm_calls (t1 @ t2)).
      (System, briefing_context e news events) \<in> set p"
    by (meson set_mono_prefix subsetD)
  with pre ms1 m2 show ?thesis
    by (intro exI [of _ ext1] exI [of _ ext2]) simp
qed


theorem augmentation_persists_witness:
  "llm_calls (snd (session_run
       [(sample_env ''k1'' ''k2'' provider_down (Streams [''ok''] None), Some ''hello'')]
       (fst (snd (script_run
          (sample_env ''k1'' ''k2'' provider_one_news (Streams [''Hel'', ''lo''] None))
          (Some ''/brief'') initial_state)))))
     = [[(System, build_system_prompt
                    (sample_env ''k1'' ''k2'' provider_one_news (Streams [''Hel'', ''lo''] None))),
         (User, ''/brief''),
         (System, ''You gathered the following data:\<newline>\<newline>Recent news headlines:\<newline>- A (S)\<newline>\<newline>Please craft a Korean daily briefing in bullet points (max 120 words), then suggest next actions.''),
         (Assistant, ''Hello''),
         (User, ''hello'')]]
   \<and> (System, briefing_context
                 (sample_env ''k1'' ''k2'' provider_one_news (Streams [''Hel'', ''lo''] None))
                 [\<lparr>title = JStr ''A'', url = JStr ''https://example.org/a'', source = JStr ''S''\<rparr>] [])
       \<in> set (hd (llm_calls (snd (session_run
           [(sample_env ''k1'' ''k2'' provider_down (Streams [''ok''] None), Some ''hello'')]
           (fst (snd (script_run
              (sample_env ''k1'' ''k2'' provider_one_news (Streams [''Hel'', ''lo''] None))
              (Some ''/brief'') initial_state)))))))"
proof -
  let ?E1 = "sample_env ''k1'' ''k2'' provider_one_news (Streams [''Hel'', ''lo''] None)"
  let ?E2 = "sample_env ''k1'' ''k2'' provider_down (Streams [''ok''] None)"
  let ?n = "\<lparr>title = JStr ''A'', url = JStr ''https://example.org/a'', source = JStr ''S''\<rparr>"
  let ?f = "fetch_news_and_events ?E1 (profession ?E1) (location ?E1) (cache initial_state)"
  let ?run = "script_run ?E1 (Some ''/brief'') initial_state"
  let ?sess = "session_run [(?E2, Some ''hello'')] (fst (snd ?run))"
  have b1: "brief_command ''/brief''"
    by code_simp
  have b2: "\<not> brief_command ''hello''"
    by code_simp
  have key: "openai_api_key ?E1 \<noteq> []"
    by (simp add: sample_env_def)
  have "fst ?f = ([?n], [])"
    by (simp add: fetch_news_and_events_def query_news_def query_events_def news_try_def raise_for_status_def
        events_try_def news_items_def event_items_def news_of_def event_of_def bind_exn_def
        sample_env_def provider_one_news_def news_payload_def news_request_def
        events_request_def initial_state_def)
  then have fetch: "?f = (([?n], []), fst (snd ?f), snd (snd ?f))"
    by (metis prod.collapse)
  have ctx: "briefing_context ?E1 [?n] []
     = ''You gathered the following data:\<newline>\<newline>Recent news headlines:\<newline>- A (S)\<newline>\<newline>Please craft a Korean daily briefing in bullet points (max 120 words), then suggest next actions.''"
    by (simp add: briefing_context_def news_line_def fmt_def)
  have fresh: "messages initial_state = None"
    by (simp add: initial_state_def)
  have answer: "chat_completions_create ?E1
                   (payload [\<lparr>role = System, content = build_system_prompt ?E1\<rparr>,
                             \<lparr>role = User, content = ''/brief''\<rparr>,
                             \<lparr>role = System, content = briefing_context ?E1 [?n] []\<rparr>])
                 = Streams [''Hel'', ''lo''] None"
    by (simp add: sample_env_def)
  have m1: "messages (fst (snd ?run))
     = Some [\<lparr>role = System, content = build_system_prompt ?E1\<rparr>,
             \<lparr>role = User, content = ''/brief''\<rparr>,
             \<lparr>role = System, content = briefing_context ?E1 [?n] []\<rparr>,
             \<lparr>role = Assistant, content = ''Hello''\<rparr>]"
    by (simp add: fresh_brief_run [OF key fresh b1 fetch answer])
  have calls: "llm_calls (snd ?sess)
     = [payload [\<lparr>role = System, content = build_system_prompt ?E1\<rparr>,
             \<lparr>role = User, content = ''/brief''\<rparr>,
             \<lparr>role = System, content = briefing_context ?E1 [?n] []\<rparr>,
             \<lparr>role = Assistant, content = ''Hello''\<rparr>,
             \<lparr>role = User, content = ''hello''\<rparr>]]"
    using b2 m1
    by (simp add: script_run_def session_messages_def handle_input_def sample_env_def
        llm_calls_append display_only_chat split: prod.splits)
  have "?run = (fst ?run, fst (snd ?run), snd (snd ?run))" and "?sess = (fst ?sess, snd ?sess)"
    by simp_all
  from augmentation_persists [OF key b1 fetch this]
  have "\<forall>p\<in>set (llm_calls (snd (snd ?run) @ snd ?sess)).
          (System, briefing_context ?E1 [?n] []) \<in> set p"
    by blast
  with calls have "(System, briefing_context ?E1 [?n] []) \<in> set (hd (llm_calls (snd ?sess)))"
    by (simp add: llm_calls_append)
  with calls ctx show ?thesis
    by (simp add: payload_def)
qed

subsection \<open>One run of the script\<close>

lemma first_run:
  "openai_api_key e \<noteq> [] \<Longrightarrow>
     script_run e None initial_state
       = (Completed,
          \<lparr>messages = Some [\<lparr>role = System, content = build_system_prompt e\<rparr>],
           cache = Map.empty\<rparr>,
          [])"
  by (simp add: script_run_def session_messages_def initial_state_def)

lemma brief_run:
  assumes key: "openai_api_key e \<noteq> []"
    and brief: "brief_command user_input"
    and fetch: "fetch_news_and_events e (profession e) (location e) (cache s)
                  = ((news, events), c', tf)"
    and answer: "chat_completions_create e
                   (payload (session_messages e s
                      @ [\<lparr>role = User, content = user_input\<rparr>,
                         \<lparr>role = System, content = briefing_context e news events\<rparr>]))
                 = Streams chunks None"
  shows "script_run e (Some user_input) s
      = (Completed,
         \<lparr>messages = Some (session_messages e s
                      @ [\<lparr>role = User, content = user_input\<rparr>,
                         \<lparr>role = System, content = briefing_context e news events\<rparr>,
                         \<lparr>role = Assistant, content = concat chunks\<rparr>]),
          cache = c'\<rparr>,
         display_messages (session_messages e s)
         @ [ChatMessage User user_input] @ tf
         @ [LlmCall (payload (session_messages e s
                      @ [\<lparr>role = User, content = user_input\<rparr>,
                         \<lparr>role = System, content = briefing_context e news events\<rparr>])),
            ChatMessage Assistant (concat chunks)])"
  using key fetch answer brief brief_not_empty [OF brief]
  by (simp add: script_run_def handle_input_def Let_def)

text \<open>
  C1. The chat box is shown by a run that has already created the transcript, so a
  submitted text always meets a session that has its messages. In a session whose
  transcript is the one base system turn, with the model credential set, the input
  \<open>/brief\<close>, a fetch that yields one news item and no event, and a stream that ends
  normally give a transcript of exactly four turns: the base system turn, the user turn
  \<open>/brief\<close>, a system turn with the briefing text, and the assistant turn with the
  streamed text. The briefing text is the preamble, the news section with the line of
  the item, and the closing instruction, with no events section between them; the model
  is called once, with the first three turns. The theorem does not need the profession
  or the location to be set.
\<close>

theorem brief_scenario:
  assumes key: "openai_api_key e \<noteq> []"
    and session: "messages s = Some [\<lparr>role = System, content = base\<rparr>]"
    and fetch: "fetch_news_and_events e (profession e) (location e) (cache s) = (([n], []), c', tf)"
    and answer: "chat_completions_create e
                   (payload [\<lparr>role = System, content = base\<rparr>,
                             \<lparr>role = User, content = ''/brief''\<rparr>,
                             \<lparr>role = System, content = briefing_context e [n] []\<rparr>])
                 = Streams chunks None"
  shows "\<exists>s' tr. script_run e (Some ''/brief'') s = (Completed, s', tr)
           \<and> messages s' = Some [\<lparr>role = System, content = base\<rparr>,
                                 \<lparr>role = User, content = ''/brief''\<rparr>,
                                 \<lparr>role = System, content = briefing_context e [n] []\<rparr>,
                                 \<lparr>role = Assistant, content = concat chunks\<rparr>]
           \<and> briefing_context e [n] []
               = ''You gathered the following data:\<newline>\<newline>''
                 @ ''Recent news headlines:\<newline>'' @ news_line e n @ ''\<newline>\<newline>''
                 @ ''Please craft a Korean daily briefing in bullet points (max 120 words), then suggest next actions.''
           \<and> sublist (fmt e (title n)) (briefing_context e [n] [])
           \<and> llm_calls tr = [[(System, base), (User, ''/brief''),
                               (System, briefing_context e [n] [])]]"
proof -
  from session have sm: "session_messages e s = [\<lparr>role = System, content = base\<rparr>]"
    by (simp add: session_messages_def)
  from fetch_quiet [OF fetch] have quiet: "llm_calls tf = []"
    by simp
  have run: "script_run e (Some ''/brief'') s
      = (Completed,
         \<lparr>messages = Some [\<lparr>role = System, content = base\<rparr>,
                           \<lparr>role = User, content = ''/brief''\<rparr>,
                           \<lparr>role = System, content = briefing_context e [n] []\<rparr>,
                           \<lparr>role = Assistant, content = concat chunks\<rparr>],
          cache = c'\<rparr>,
         [ChatMessage User ''/brief''] @ tf
         @ [LlmCall (payload [\<lparr>role = System, content = base\<rparr>,
                             \<lparr>role = User, content = ''/brief''\<rparr>,
                             \<lparr>role = System, content = briefing_context e [n] []\<rparr>]),
            ChatMessage Assistant (concat chunks)])"
    using brief_run [OF key brief_slash fetch, of chunks] answer
    by (simp add: sm)
  have ctx: "briefing_context e [n] []
               = ''You gathered the following data:\<newline>\<newline>''
                 @ ''Recent news headlines:\<newline>'' @ news_line e n @ ''\<newline>\<newline>''
                 @ ''Please craft a Korean daily briefing in bullet points (max 120 words), then suggest next actions.''"
    by (simp add: briefing_context_def)
  have "sublist (fmt e (title n)) (news_line e n)"
    using news_line_fields by simp
  then have "sublist (fmt e (title n))
       ((''You gathered the following data:\<newline>\<newline>'' @ ''Recent news headlines:\<newline>'')
         @ news_line e n
         @ (''\<newline>\<newline>'' @ ''Please craft a Korean daily briefing in bullet points (max 120 words), then suggest next actions.''))"
    by (rule sublist_in)
  with ctx have sub: "sublist (fmt e (title n)) (briefing_context e [n] [])"
    by simp
  have calls: "llm_calls ([ChatMessage User ''/brief''] @ tf
         @ [LlmCall (payload [\<lparr>role = System, content = base\<rparr>,
                             \<lparr>role = User, content = ''/brief''\<rparr>,
                             \<lparr>role = System, content = briefing_context e [n] []\<rparr>]),
            ChatMessage Assistant (concat chunks)])
       = [[(System, base), (User, ''/brief''), (System, briefing_context e [n] [])]]"
    using quiet by (simp add: llm_calls_append payload_def)
  from run ctx sub calls show ?thesis
    by simp
qed

theorem brief_scenario_witness:
  "messages (fst (session_run
       [(sample_env ''k1'' ''k2'' provider_one_news (Streams [''Hel'', ''lo''] None), None),
        (sample_env ''k1'' ''k2'' provider_one_news (Streams [''Hel'', ''lo''] None), Some ''/brief'')]
       initial_state))
     = Some [\<lparr>role = System,
              content = build_system_prompt
                (sample_env ''k1'' ''k2'' provider_one_news (Streams [''Hel'', ''lo''] None))\<rparr>,
             \<lparr>role = User, content = ''/brief''\<rparr>,
             \<lparr>role = System,
              content = ''You gathered the following data:\<newline>\<newline>Recent news headlines:\<newline>- A (S)\<newline>\<newline>Please craft a Korean daily briefing in bullet points (max 120 words), then suggest next actions.''\<rparr>,
             \<lparr>role = Assistant, content = ''Hello''\<rparr>]"
proof -
  let ?E = "sample_env ''k1'' ''k2'' provider_one_news (Streams [''Hel'', ''lo''] None)"
  let ?n = "\<lparr>title = JStr ''A'', url = JStr ''https://example.org/a'', source = JStr ''S''\<rparr>"
  let ?s = "\<lparr>messages = Some [\<lparr>role = System, content = build_system_prompt ?E\<rparr>],
             cache = Map.empty\<rparr>"
  let ?f = "fetch_news_and_events ?E (profession ?E) (location ?E) (cache ?s)"
  have key: "openai_api_key ?E \<noteq> []"
    by (simp add: sample_env_def)
  have one: "script_run ?E None initial_state = (Completed, ?s, [])"
    using key by (rule first_run)
  have "fst ?f = ([?n], [])"
    by (simp add: fetch_news_and_events_def query_news_def query_events_def news_try_def
        raise_for_status_def events_try_def news_items_def event_items_def news_of_def
        event_of_def bind_exn_def sample_env_def provider_one_news_def news_payload_def
        news_request_def events_request_def)
  then have fetch: "?f = (([?n], []), fst (snd ?f), snd (snd ?f))"
    by (metis prod.collapse)
  have session: "messages ?s = Some [\<lparr>role = System, content = build_system_prompt ?E\<rparr>]"
    by simp
  have answer: "chat_completions_create ?E
                   (payload [\<lparr>role = System, content = build_system_prompt ?E\<rparr>,
                             \<lparr>role = User, content = ''/brief''\<rparr>,
                             \<lparr>role = System, content = briefing_context ?E [?n] []\<rparr>])
                 = Streams [''Hel'', ''lo''] None"
    by (simp add: sample_env_def)
  have line: "news_line ?E ?n = ''- A (S)''"
    by (simp add: news_line_def fmt_def)
  from brief_scenario [OF key session fetch answer] obtain s' tr
    where run: "script_run ?E (Some ''/brief'') ?s = (Completed, s', tr)"
      and m: "messages s' = Some [\<lparr>role = System, content = build_system_prompt ?E\<rparr>,
                                 \<lparr>role = User, content = ''/brief''\<rparr>,
                                 \<lparr>role = System, content = briefing_context ?E [?n] []\<rparr>,
                                 \<lparr>role = Assistant, content = concat [''Hel'', ''lo'']\<rparr>]"
      and ctx: "briefing_context ?E [?n] []
               = ''You gathered the following data:\<newline>\<newline>''
                 @ ''Recent news headlines:\<newline>'' @ news_line ?E ?n @ ''\<newline>\<newline>''
                 @ ''Please craft a Korean daily briefing in bullet points (max 120 words), then suggest next actions.''"
    by blast
  have "fst (session_run [(?E, None), (?E, Some ''/brief'')] initial_state) = s'"
    using one run by simp
  with m ctx line show ?thesis
    by simp
qed


lemma http_gets_append: "http_gets (a @ b) = http_gets a @ http_gets b"
  by (induction a rule: http_gets.induct) auto

text \<open>
  C3, as the claim states it, fails: the guard is \<open>if user_input:\<close>, which only an empty
  text fails. In the session left by the first run of the script, a text of two spaces
  is stored as a user turn and answered by the model.
\<close>

theorem blank_input_counterexample:
  "script_run (sample_env ''k1'' ''k2'' provider_one_news (Streams [''Hel'', ''lo''] None)) None
       initial_state
     = (Completed,
        \<lparr>messages = Some [\<lparr>role = System,
                           content = build_system_prompt
                             (sample_env ''k1'' ''k2'' provider_one_news
                                (Streams [''Hel'', ''lo''] None))\<rparr>],
         cache = Map.empty\<rparr>,
        [])
   \<and> messages (fst (snd (script_run
       (sample_env ''k1'' ''k2'' provider_one_news (Streams [''Hel'', ''lo''] None))
       (Some ''  '')
       \<lparr>messages = Some [\<lparr>role = System,
                          content = build_system_prompt
                            (sample_env ''k1'' ''k2'' provider_one_news
                               (Streams [''Hel'', ''lo''] None))\<rparr>],
        cache = Map.empty\<rparr>)))
     = Some [\<lparr>role = System,
              content = build_system_prompt
                (sample_env ''k1'' ''k2'' provider_one_news (Streams [''Hel'', ''lo''] None))\<rparr>,
             \<lparr>role = User, content = ''  ''\<rparr>,
             \<lparr>role = Assistant, content = ''Hello''\<rparr>]
   \<and> length (llm_calls (snd (snd (script_run
       (sample_env ''k1'' ''k2'' provider_one_news (Streams [''Hel'', ''lo''] None))
       (Some ''  '')
       \<lparr>messages = Some [\<lparr>role = System,
                          content = build_system_prompt
                            (sample_env ''k1'' ''k2'' provider_one_news
                               (Streams [''Hel'', ''lo''] None))\<rparr>],
        cache = Map.empty\<rparr>)))) = 1"
proof -
  let ?E = "sample_env ''k1'' ''k2'' provider_one_news (Streams [''Hel'', ''lo''] None)"
  have key: "openai_api_key ?E \<noteq> []"
    by (simp add: sample_env_def)
  have nb: "\<not> brief_command ''  ''"
    by code_simp
  have ans: "\<And>p. chat_completions_create ?E p = Streams [''Hel'', ''lo''] None"
    by (simp add: sample_env_def)
  show ?thesis
    using nb key first_run [OF key]
    by (simp add: script_run_def session_messages_def handle_input_def ans)
qed

text \<open>
  C3, amended. With the model credential set, a run with no submission or with the
  empty text adds nothing: in a session that has its messages the state stays as it is
  and only the stored messages are shown again (no model call, no request, no warning,
  no error box); in a session without them the run only creates the base system turn and
  shows nothing. A non-empty text of whitespace only is not rejected: it is not a
  \<open>/brief\<close> command, the run shows it and appends it as a user turn, calls the model
  once with the transcript ending in that turn, sends no request and leaves the cache as
  it is. Without the model credential every run stops at the error box, whatever the
  input.
\<close>

theorem only_empty_input_ignored:
  "(openai_api_key e \<noteq> [] \<and> messages s = Some msgs
      \<and> (user_input = None \<or> user_input = Some [])
      \<longrightarrow> script_run e user_input s = (Completed, s, display_messages msgs)
          \<and> llm_calls (display_messages msgs) = []
          \<and> http_gets (display_messages msgs) = []
          \<and> warnings_of (display_messages msgs) = []
          \<and> ErrorBox \<notin> set (display_messages msgs))
   \<and> (openai_api_key e \<noteq> [] \<and> messages s = None
      \<and> (user_input = None \<or> user_input = Some [])
      \<longrightarrow> script_run e user_input s
            = (Completed,
               s\<lparr>messages := Some [\<lparr>role = System, content = build_system_prompt e\<rparr>]\<rparr>, []))
   \<and> (openai_api_key e \<noteq> [] \<and> messages s = Some msgs
      \<and> blank \<noteq> [] \<and> (\<forall>c\<in>set blank. py_isspace c)
      \<longrightarrow> \<not> brief_command blank
          \<and> (\<exists>r ext tr.
                script_run e (Some blank) s
                  = (r, \<lparr>messages = Some (msgs @ \<lparr>role = User, content = blank\<rparr> # ext),
                         cache = cache s\<rparr>, tr)
                \<and> ChatMessage User blank \<in> set tr
                \<and> llm_calls tr = [payload (msgs @ [\<lparr>role = User, content = blank\<rparr>])]
                \<and> http_gets tr = []))
   \<and> (openai_api_key e = [] \<longrightarrow> script_run e user_input s = (Stopped, s, [ErrorBox]))"
proof (intro conjI impI)
  assume a: "openai_api_key e \<noteq> [] \<and> messages s = Some msgs
      \<and> (user_input = None \<or> user_input = Some [])"
  then have "s\<lparr>messages := Some msgs\<rparr> = s"
    by simp
  with a show "script_run e user_input s = (Completed, s, display_messages msgs)"
    by (auto simp add: script_run_def session_messages_def)
next
  assume "openai_api_key e \<noteq> [] \<and> messages s = None
      \<and> (user_input = None \<or> user_input = Some [])"
  then show "script_run e user_input s
            = (Completed,
               s\<lparr>messages := Some [\<lparr>role = System, content = build_system_prompt e\<rparr>]\<rparr>, [])"
    by (auto simp add: script_run_def session_messages_def)
next
  assume "openai_api_key e \<noteq> [] \<and> messages s = Some msgs
      \<and> blank \<noteq> [] \<and> (\<forall>c\<in>set blank. py_isspace c)"
  then show "\<not> brief_command blank"
    by (simp add: blank_not_brief)
next
  assume a: "openai_api_key e \<noteq> [] \<and> messages s = Some msgs
      \<and> blank \<noteq> [] \<and> (\<forall>c\<in>set blank. py_isspace c)"
  then have nb: "\<not> brief_command blank"
    by (simp add: blank_not_brief)
  let ?ms = "msgs @ [\<lparr>role = User, content = blank\<rparr>]"
  show "\<exists>r ext tr.
                script_run e (Some blank) s
                  = (r, \<lparr>messages = Some (msgs @ \<lparr>role = User, content = blank\<rparr> # ext),
                         cache = cache s\<rparr>, tr)
                \<and> ChatMessage User blank \<in> set tr
                \<and> llm_calls tr = [payload (msgs @ [\<lparr>role = User, content = blank\<rparr>])]
                \<and> http_gets tr = []"
  proof (cases "chat_completions_create e (payload ?ms)")
    case (CreateRaises ex)
    with a nb have "script_run e (Some blank) s
        = (Raised ex, \<lparr>messages = Some (msgs @ \<lparr>role = User, content = blank\<rparr> # []),
                       cache = cache s\<rparr>,
           display_messages msgs @ [ChatMessage User blank, LlmCall (payload ?ms)])"
      by (simp add: script_run_def session_messages_def handle_input_def Let_def)
    then show ?thesis
      by (intro exI [of _ "Raised ex"] exI [of _ "[]"]
          exI [of _ "display_messages msgs @ [ChatMessage User blank, LlmCall (payload ?ms)]"])
        (simp add: llm_calls_append http_gets_append display_only_chat)
  next
    case (Streams chunks err)
    show ?thesis
    proof (cases err)
      case None
      with Streams a nb have "script_run e (Some blank) s
          = (Completed,
             \<lparr>messages = Some (msgs @ \<lparr>role = User, content = blank\<rparr>
                                 # [\<lparr>role = Assistant, content = concat chunks\<rparr>]),
              cache = cache s\<rparr>,
             display_messages msgs @ [ChatMessage User blank, LlmCall (payload ?ms),
                                      ChatMessage Assistant (concat chunks)])"
        by (simp add: script_run_def session_messages_def handle_input_def Let_def)
      then show ?thesis
        by (intro exI [of _ Completed] exI [of _ "[\<lparr>role = Assistant, content = concat chunks\<rparr>]"]
            exI [of _ "display_messages msgs @ [ChatMessage User blank, LlmCall (payload ?ms),
                                      ChatMessage Assistant (concat chunks)]"])
          (simp add: llm_calls_append http_gets_append display_only_chat)
    next
      case (Some ex)
      with Streams a nb have "script_run e (Some blank) s
          = (Raised ex, \<lparr>messages = Some (msgs @ \<lparr>role = User, content = blank\<rparr> # []),
                         cache = cache s\<rparr>,
             display_messages msgs @ [ChatMessage User blank, LlmCall (payload ?ms),
                                      ChatMessage Assistant (concat chunks)])"
        by (simp add: script_run_def session_messages_def handle_input_def Let_def)
      then show ?thesis
        by (intro exI [of _ "Raised ex"] exI [of _ "[]"]
            exI [of _ "display_messages msgs @ [ChatMessage User blank, LlmCall (payload ?ms),
                                      ChatMessage Assistant (concat chunks)]"])
          (simp add: llm_calls_append http_gets_append display_only_chat)
    qed
  qed
next
  assume "openai_api_key e = []"
  then show "script_run e user_input s = (Stopped, s, [ErrorBox])"
    by (simp add: script_run_def)
qed (simp_all add: display_only_chat)

theorem only_empty_input_ignored_witness:
  "script_run (sample_env ''k1'' ''k2'' provider_one_news (Streams [''Hel'', ''lo''] None))
      (Some []) \<lparr>messages = Some [\<lparr>role = System, content = ''base''\<rparr>], cache = Map.empty\<rparr>
     = (Completed, \<lparr>messages = Some [\<lparr>role = System, content = ''base''\<rparr>], cache = Map.empty\<rparr>, [])
   \<and> \<not> brief_command ''  ''
   \<and> llm_calls (snd (snd (script_run
        (sample_env ''k1'' ''k2'' provider_one_news (Streams [''Hel'', ''lo''] None))
        (Some ''  '')
        \<lparr>messages = Some [\<lparr>role = System, content = ''base''\<rparr>], cache = Map.empty\<rparr>)))
     = [[(System, ''base''), (User, ''  '')]]"
proof -
  let ?E = "sample_env ''k1'' ''k2'' provider_one_news (Streams [''Hel'', ''lo''] None)"
  let ?s = "\<lparr>messages = Some [\<lparr>role = System, content = ''base''\<rparr>], cache = Map.empty\<rparr>"
  have key: "openai_api_key ?E \<noteq> []"
    by (simp add: sample_env_def)
  have sp: "''  '' \<noteq> [] \<and> (\<forall>c\<in>set ''  ''. py_isspace c)"
    by (simp add: py_isspace_def)
  note inst = only_empty_input_ignored
    [where e = ?E and s = ?s and msgs = "[\<lparr>role = System, content = ''base''\<rparr>]"
       and user_input = "Some []" and blank = "''  ''"]
  from inst key have first: "script_run ?E (Some []) ?s = (Completed, ?s, [])"
    by simp
  from inst key sp have nb: "\<not> brief_command ''  ''"
    by simp
  from inst key sp obtain r ext tr
    where "script_run ?E (Some ''  '') ?s
             = (r, \<lparr>messages = Some ([\<lparr>role = System, content = ''base''\<rparr>]
                                     @ \<lparr>role = User, content = ''  ''\<rparr> # ext),
                    cache = cache ?s\<rparr>, tr)"
      and "llm_calls tr = [payload ([\<lparr>role = System, content = ''base''\<rparr>]
                                     @ [\<lparr>role = User, content = ''  ''\<rparr>])]"
    by auto
  then have "llm_calls (snd (snd (script_run ?E (Some ''  '') ?s)))
               = [[(System, ''base''), (User, ''  '')]]"
    by (simp add: payload_def)
  with first nb show ?thesis
    by simp
qed

end
